theory Spec2Isabelle
  imports Complex_Main
begin

section \<open>Common modelling conventions\<close>

text \<open>
  Python floats (timestamps, wall-clock readings, waiting times, and a frame rate that a
  message may carry as a float) are modelled as the real numbers they denote; infinities
  and NaN are left out. A float operation of the source returns the binary64 rounding of
  the exact result. That rounding is the parameter \<open>rnd\<close> of every definition that
  computes on floats: where the source writes \<open>a - b\<close>, \<open>a * b\<close> or \<open>a / b\<close> on
  floats, the model writes \<open>rnd (a - b)\<close>, \<open>rnd (a * b)\<close>, \<open>rnd (a / b)\<close>. Nothing is
  assumed about \<open>rnd\<close>, so a statement proved for every \<open>rnd\<close> holds for the rounding of
  the platform, whatever it does. Comparisons, \<open>abs\<close>, \<open>min\<close>, \<open>max\<close> and \<open>int()\<close>
  are exact on floats and need no rounding.

  A concrete run is evaluated with \<open>exact\<close> only when every float operation in it has an
  exact result that is itself a binary64 number (the inputs are dyadic rationals of small
  magnitude), so that the rounding returns it unchanged.

  Exceptions are values of \<open>py_error\<close>; a function that can raise returns a sum with
  \<open>Inl\<close> for the exception.
\<close>

type_synonym rounding = "real \<Rightarrow> real"

definition exact :: rounding where
  "exact x = x"

datatype py_error = KeyError | TypeError | ZeroDivisionError | ValueError | AttributeError

section \<open>frame\_cache.py: the per-camera FrameCache\<close>

text \<open>
  \<open>FrameCache.__init__\<close> first binds \<open>self.cache\<close> to an \<open>OrderedDict\<close> and then
  rebinds it to a plain \<open>dict\<close>. A Python dict keeps insertion order, so it is an
  association list with distinct keys, oldest entry first.
\<close>

record ('k, 'v) FrameCache =
  cache :: "('k \<times> 'v) list"
  max_size :: int

definition FrameCache_init :: "int \<Rightarrow> ('k, 'v) FrameCache" where
  "FrameCache_init ms = \<lparr>cache = [], max_size = ms\<rparr>"

text \<open>\<open>key in d\<close>\<close>

definition dict_contains :: "('k \<times> 'v) list \<Rightarrow> 'k \<Rightarrow> bool" where
  "dict_contains d k = (k \<in> set (map fst d))"

text \<open>
  \<open>d.pop(key)\<close>. Both call sites pop a key that is known to be present (guarded by
  \<open>in\<close>, or collected from the dict itself), so the \<open>KeyError\<close> branch of Python's
  \<open>pop\<close> is never taken there.
\<close>

definition dict_pop :: "('k \<times> 'v) list \<Rightarrow> 'k \<Rightarrow> ('k \<times> 'v) list" where
  "dict_pop d k = filter (\<lambda>kv. fst kv \<noteq> k) d"

text \<open>\<open>d[key] = value\<close>: an existing key keeps its position, a new key goes to the end.\<close>

fun dict_set :: "('k \<times> 'v) list \<Rightarrow> 'k \<Rightarrow> 'v \<Rightarrow> ('k \<times> 'v) list" where
  "dict_set [] k v = [(k, v)]"
| "dict_set ((k', v') # rest) k v =
     (if k' = k then (k, v) # rest else (k', v') # dict_set rest k v)"

text \<open>
  \<open>d.popitem()\<close> without argument removes the pair inserted LAST (this is so for
  \<open>dict\<close>, and for \<open>OrderedDict\<close> too, whose \<open>popitem\<close> defaults to \<open>last=True\<close>).
  On an empty dict it raises \<open>KeyError\<close>.
\<close>

definition dict_popitem :: "('k \<times> 'v) list \<Rightarrow> py_error + ('k \<times> 'v) list" where
  "dict_popitem d = (if d = [] then Inl KeyError else Inr (butlast d))"

text \<open>
  \<open>add_frame(frame_timestamp, frame_data)\<close>. The guard \<open>self.max_size and \<dots>\<close> is
  Python truthiness of an int: \<open>max_size \<noteq> 0\<close>.
\<close>

definition add_frame ::
  "('k, 'v) FrameCache \<Rightarrow> 'k \<Rightarrow> 'v \<Rightarrow> py_error + ('k, 'v) FrameCache" where
  "add_frame fc frame_timestamp frame_data =
     (let c1 = (if dict_contains (cache fc) frame_timestamp
                then dict_pop (cache fc) frame_timestamp else cache fc);
          c2 = dict_set c1 frame_timestamp frame_data
      in if max_size fc \<noteq> 0 \<and> int (length c2) > max_size fc
         then (case dict_popitem c2 of
                 Inl e \<Rightarrow> Inl e
               | Inr c3 \<Rightarrow> Inr (fc\<lparr>cache := c3\<rparr>))
         else Inr (fc\<lparr>cache := c2\<rparr>))"

text \<open>
  The scanning loop of \<open>get_and_remove_frames_before\<close>: walk the items oldest first,
  collect frame and key while \<open>ts < frame_timestamp\<close>, and \<open>break\<close> at the first
  other item.
\<close>

fun scan_before :: "('k::linorder \<times> 'v) list \<Rightarrow> 'k \<Rightarrow> 'v list \<times> 'k list" where
  "scan_before [] t = ([], [])"
| "scan_before ((ts, frame) # rest) t =
     (if ts < t
      then (let (frames_to_return, keys_to_remove) = scan_before rest t
            in (frame # frames_to_return, ts # keys_to_remove))
      else ([], []))"

definition get_and_remove_frames_before ::
  "('k::linorder, 'v) FrameCache \<Rightarrow> 'k \<Rightarrow> 'v list \<times> ('k, 'v) FrameCache" where
  "get_and_remove_frames_before fc frame_timestamp =
     (let (frames_to_return, keys_to_remove) = scan_before (cache fc) frame_timestamp
      in (frames_to_return, fc\<lparr>cache := foldl dict_pop (cache fc) keys_to_remove\<rparr>))"

section \<open>frame\_sequencing\_service.py: FrameSequencingService\<close>

text \<open>
  The opaque message payload carried along with a frame (the keyword argument
  \<open>message=\<dots>\<close>); \<open>None\<close> when the caller passed no such keyword.
\<close>

type_synonym payload = string

text \<open>An entry of \<open>frames_buffer\<close> / \<open>temp_buffer\<close>, as built by \<open>collect\<close>.\<close>

record seq_entry =
  se_frame_timestamp :: real
  se_camera_id :: string
  se_entry_time :: real
  se_additional_info :: "payload option"

text \<open>
  The service. The type \<open>'g\<close> is the type of a group held in
  \<open>grouped_frames_buffer\<close>; the locks are left out (every method body runs under the
  one lock, so the methods are atomic state transformers).
\<close>

record 'g FrameSequencingService =
  duration :: real
  temp_buffer :: "seq_entry list"
  frames_buffer :: "seq_entry list"
  grouped_frames_buffer :: "'g list"
  last_sequence_time :: real

definition FrameSequencingService_init :: "real \<Rightarrow> real \<Rightarrow> 'g FrameSequencingService" where
  "FrameSequencingService_init dur now =
     \<lparr>duration = dur, temp_buffer = [], frames_buffer = [],
      grouped_frames_buffer = [], last_sequence_time = now\<rparr>"

text \<open>
  \<open>collect(frame_metadata, camera_id, **kwargs)\<close> at wall-clock time \<open>current_time\<close>.
  \<open>frame_metadata["frame_timestamp"]\<close> raises \<open>KeyError\<close> when the metadata has no such
  entry, which is the argument \<open>None\<close> here.
\<close>

definition seq_collect ::
  "real \<Rightarrow> real option \<Rightarrow> string \<Rightarrow> payload option \<Rightarrow> 'g FrameSequencingService
     \<Rightarrow> py_error + 'g FrameSequencingService" where
  "seq_collect current_time frame_metadata_ts camera_id msg fs =
     (case frame_metadata_ts of
        None \<Rightarrow> Inl KeyError
      | Some frame_timestamp \<Rightarrow>
          Inr (fs\<lparr>frames_buffer := frames_buffer fs @
                 [\<lparr>se_frame_timestamp = frame_timestamp, se_camera_id = camera_id,
                   se_entry_time = current_time, se_additional_info = msg\<rparr>]\<rparr>))"

definition collect_group :: "'g \<Rightarrow> 'g FrameSequencingService \<Rightarrow> 'g FrameSequencingService" where
  "collect_group group_frame fs =
     fs\<lparr>grouped_frames_buffer := grouped_frames_buffer fs @ [group_frame]\<rparr>"

text \<open>
  \<open>sequence()\<close>: \<open>temp_buffer\<close> is ASSIGNED the stably sorted \<open>frames_buffer\<close>
  (Python's \<open>sorted\<close> is stable, as is \<open>sort_key\<close>), then \<open>frames_buffer\<close> is cleared.
  \<open>grouped_frames_buffer\<close> is not touched.
\<close>

definition sequence :: "'g FrameSequencingService \<Rightarrow> 'g FrameSequencingService" where
  "sequence fs =
     fs\<lparr>temp_buffer := sort_key se_frame_timestamp (frames_buffer fs), frames_buffer := []\<rparr>"

text \<open>
  \<open>next()\<close>: \<open>None\<close> on an empty \<open>temp_buffer\<close>; otherwise the first entry is popped and
  its \<open>["additional_info"]["message"]\<close> returned (\<open>KeyError\<close> when the entry carries no
  message; the entry has been popped by then).
\<close>

definition seq_next ::
  "'g FrameSequencingService \<Rightarrow> (py_error + payload option) \<times> 'g FrameSequencingService" where
  "seq_next fs =
     (case temp_buffer fs of
        [] \<Rightarrow> (Inr None, fs)
      | e # rest \<Rightarrow>
          ((case se_additional_info e of None \<Rightarrow> Inl KeyError | Some m \<Rightarrow> Inr (Some m)),
           fs\<lparr>temp_buffer := rest\<rparr>))"

text \<open>\<open>next_group()\<close>: pops the first group of \<open>grouped_frames_buffer\<close>, in buffer order.\<close>

definition next_group :: "'g FrameSequencingService \<Rightarrow> 'g option \<times> 'g FrameSequencingService" where
  "next_group fs =
     (case grouped_frames_buffer fs of
        [] \<Rightarrow> (None, fs)
      | g # rest \<Rightarrow> (Some g, fs\<lparr>grouped_frames_buffer := rest\<rparr>))"

text \<open>
  The drain loop shared by both synchronizers,
  \<^verbatim>\<open>msg = next_group(); while msg: callback(msg); msg = next_group()\<close>,
  as a recursion over the buffer: each group popped is handed to the callback, until the
  buffer is empty or a popped group is falsy (an empty list), which ends the loop with
  that group already removed. The result is the list of groups handed to the callback and
  what is left of the buffer.
\<close>

fun drain_loop :: "('g \<Rightarrow> bool) \<Rightarrow> 'g list \<Rightarrow> 'g list \<times> 'g list" where
  "drain_loop truthy [] = ([], [])"
| "drain_loop truthy (g # rest) =
     (if truthy g
      then (let (delivered, remaining) = drain_loop truthy rest in (g # delivered, remaining))
      else ([], rest))"

definition drain_groups ::
  "('g \<Rightarrow> bool) \<Rightarrow> 'g FrameSequencingService \<Rightarrow> 'g list \<times> 'g FrameSequencingService" where
  "drain_groups truthy fs =
     (let (delivered, remaining) = drain_loop truthy (grouped_frames_buffer fs)
      in (delivered, fs\<lparr>grouped_frames_buffer := remaining\<rparr>))"

section \<open>frame\_sync\_number\_service.py: FrameSyncNumberService\<close>

record ns_initial =
  ni_start_time :: real
  ni_elapsed_time :: real

record ns_camera_data =
  cd_frame_number :: int
  cd_frame_timestamp :: real
  cd_elapsed_time :: real
  cd_additional_info :: "payload option"

text \<open>
  A buffered frame. The dict built by \<open>collect\<close> has the keys \<open>frame_number\<close>,
  \<open>frame_timestamp\<close>, \<open>camera_id\<close>, \<open>camera_data\<close> and \<open>grouped\<close>; the cleanup of
  \<open>synchronize\<close> reads \<open>entry.get("entry_time")\<close>, which is \<open>None\<close> for a dict that
  has no such key. \<open>nf_entry_time\<close> is the result of that \<open>get\<close>.
\<close>

record ns_frame =
  nf_frame_number :: int
  nf_frame_timestamp :: real
  nf_camera_id :: string
  nf_camera_data :: ns_camera_data
  nf_grouped :: bool
  nf_entry_time :: "real option"

record ns_state =
  ns_frame_seq :: "ns_frame list FrameSequencingService"
  ns_initial_camera_data :: "(string \<times> ns_initial) list"
  ns_frames_buffer :: "ns_frame list"
  ns_fps :: real
  ns_current_camera_data :: "(string \<times> ns_camera_data) list"
  ns_retention_time :: real

text \<open>\<open>__init__(config)\<close>, constructed at wall-clock time \<open>now\<close>.\<close>

definition ns_init :: "real \<Rightarrow> real \<Rightarrow> real \<Rightarrow> real \<Rightarrow> ns_state" where
  "ns_init backlog_check_interval fps retention_time now =
     \<lparr>ns_frame_seq = FrameSequencingService_init backlog_check_interval now,
      ns_initial_camera_data = [], ns_frames_buffer = [], ns_fps = fps,
      ns_current_camera_data = [], ns_retention_time = retention_time\<rparr>"

text \<open>
  \<open>collect(frame_number, frame_timestamp, fps, camera_id, **kwargs)\<close>. The frame rate is
  a Python number: an int from the configuration, or what the message carries.
\<close>

definition ns_collect ::
  "rounding \<Rightarrow> int \<Rightarrow> real \<Rightarrow> real \<Rightarrow> string \<Rightarrow> payload option \<Rightarrow> ns_state \<Rightarrow> ns_state"
  where
  "ns_collect rnd frame_number frame_timestamp fps camera_id msg s =
     (let fps' = (if ns_fps s = 0 then fps else ns_fps s);
          icd = (if \<not> dict_contains (ns_initial_camera_data s) camera_id
                 then dict_set (ns_initial_camera_data s) camera_id
                        \<lparr>ni_start_time = frame_timestamp, ni_elapsed_time = 0\<rparr>
                 else ns_initial_camera_data s);
          start = (case map_of icd camera_id of
                     Some d \<Rightarrow> ni_start_time d | None \<Rightarrow> frame_timestamp);
          camera_data = \<lparr>cd_frame_number = frame_number, cd_frame_timestamp = frame_timestamp,
                         cd_elapsed_time = rnd (frame_timestamp - start), cd_additional_info = msg\<rparr>
      in s\<lparr>ns_fps := fps', ns_initial_camera_data := icd,
           ns_current_camera_data := dict_set (ns_current_camera_data s) camera_id camera_data,
           ns_frames_buffer := ns_frames_buffer s @
             [\<lparr>nf_frame_number = frame_number, nf_frame_timestamp = frame_timestamp,
               nf_camera_id = camera_id, nf_camera_data = camera_data,
               nf_grouped = False, nf_entry_time = None\<rparr>]\<rparr>)"

text \<open>Python's \<open>int(x)\<close> on a float: truncation towards zero.\<close>

definition py_int :: "real \<Rightarrow> int" where
  "py_int x = (if x < 0 then \<lceil>x\<rceil> else \<lfloor>x\<rfloor>)"

text \<open>The second component of the pair returned by \<open>sampling\<close>.\<close>

definition SKIP :: bool where "SKIP = True"
definition WAIT :: bool where "WAIT = False"

text \<open>
  \<open>sampling(camera_id)\<close>. The first component of the result is a number of frames
  (an int) with \<open>SKIP\<close> and a number of seconds (a float) with \<open>WAIT\<close>; both are
  real numbers here. The product \<open>elapsed_time * self.fps\<close> and the quotient
  \<open>skip_count / self.fps\<close> are float operations; the quotient raises when \<open>fps\<close> is 0.
\<close>

definition ns_sampling :: "rounding \<Rightarrow> ns_state \<Rightarrow> string \<Rightarrow> py_error + (real \<times> bool)" where
  "ns_sampling rnd s camera_id =
     (case map_of (ns_current_camera_data s) camera_id of
        None \<Rightarrow> Inl KeyError
      | Some camera_data \<Rightarrow>
          (let expected_frame = py_int (rnd (cd_elapsed_time camera_data * ns_fps s));
               skip_count = expected_frame - cd_frame_number camera_data
           in if skip_count < 0
              then (if ns_fps s = 0 then Inl ZeroDivisionError
                    else Inr (\<bar>rnd (of_int skip_count / ns_fps s)\<bar>, WAIT))
              else Inr (of_int (max skip_count 0), SKIP)))"

text \<open>
  The grouping loop of \<open>synchronize\<close>, over the sorted distinct frame numbers. The
  complete groups go to the LOCAL list \<open>grouped_frames\<close>; their members are marked in
  the buffer (the group holds the very dicts of the buffer, so marking the members of the
  group for number \<open>n\<close> is marking every buffered frame with number \<open>n\<close>).
\<close>

definition ns_mark :: "int \<Rightarrow> ns_frame list \<Rightarrow> ns_frame list" where
  "ns_mark n buf = map (\<lambda>f. if nf_frame_number f = n then f\<lparr>nf_grouped := True\<rparr> else f) buf"

fun ns_group_loop ::
  "nat \<Rightarrow> int list \<Rightarrow> ns_frame list list \<times> ns_frame list \<Rightarrow> ns_frame list list \<times> ns_frame list"
  where
  "ns_group_loop ncams [] (grouped_frames, buf) = (grouped_frames, buf)"
| "ns_group_loop ncams (frame_number # rest) (grouped_frames, buf) =
     (let group = filter (\<lambda>f. nf_frame_number f = frame_number) buf
      in if length group = ncams
         then ns_group_loop ncams rest
                (grouped_frames @ [map (\<lambda>f. f\<lparr>nf_grouped := True\<rparr>) group],
                 ns_mark frame_number buf)
         else ns_group_loop ncams rest (grouped_frames, buf))"

text \<open>
  The cleanup comprehension
  \<^verbatim>\<open>[e for e in buf if not e.get("grouped") and (time.time() - e.get("entry_time")) <= retention]\<close>.
  For an entry that is not grouped the right operand is evaluated, and \<open>float - None\<close>
  raises \<open>TypeError\<close>; a grouped entry is dropped without evaluating it.
\<close>

fun ns_cleanup ::
  "rounding \<Rightarrow> real \<Rightarrow> real \<Rightarrow> ns_frame list \<Rightarrow> py_error + ns_frame list" where
  "ns_cleanup rnd now retention [] = Inr []"
| "ns_cleanup rnd now retention (e # rest) =
     (if \<not> nf_grouped e
      then (case nf_entry_time e of
              None \<Rightarrow> Inl TypeError
            | Some t \<Rightarrow>
                (case ns_cleanup rnd now retention rest of
                   Inl err \<Rightarrow> Inl err
                 | Inr kept \<Rightarrow>
                     Inr (if rnd (now - t) \<le> retention then e # kept else kept)))
      else ns_cleanup rnd now retention rest)"

text \<open>
  \<open>synchronize(callback)\<close> at wall-clock time \<open>now\<close>. The callback is modelled by the
  list of groups it is called with, in call order. The result is: the exception raised, if
  any; the state left behind (an exception in the cleanup leaves the marked buffer in
  place, since the assignment to \<open>frames_buffer\<close> is not reached); the groups handed to
  the callback; and the local list \<open>grouped_frames\<close>, which the source builds and never
  reads again.
\<close>

definition ns_synchronize ::
  "rounding \<Rightarrow> real \<Rightarrow> ns_state
     \<Rightarrow> (py_error + unit) \<times> ns_state \<times> ns_frame list list \<times> ns_frame list list"
  where
  "ns_synchronize rnd now s =
     (let frame_numbers = sort (remdups (map nf_frame_number (ns_frames_buffer s)));
          (grouped_frames, buf) =
             ns_group_loop (length (ns_initial_camera_data s)) frame_numbers
               ([], ns_frames_buffer s);
          (delivered, fs) = drain_groups (\<lambda>g. g \<noteq> []) (sequence (ns_frame_seq s))
      in case ns_cleanup rnd now (ns_retention_time s) buf of
           Inl err \<Rightarrow>
             (Inl err, s\<lparr>ns_frame_seq := fs, ns_frames_buffer := buf\<rparr>, delivered, grouped_frames)
         | Inr kept \<Rightarrow>
             (Inr (), s\<lparr>ns_frame_seq := fs, ns_frames_buffer := kept\<rparr>, delivered, grouped_frames))"

text \<open>The states a FrameSyncNumberService can be in: constructed, then any calls.\<close>

inductive ns_reachable :: "rounding \<Rightarrow> ns_state \<Rightarrow> bool" for rnd :: rounding where
  ns_reach_init: "ns_reachable rnd (ns_init interval fps retention now)"
| ns_reach_collect:
    "ns_reachable rnd s \<Longrightarrow>
     ns_reachable rnd (ns_collect rnd frame_number frame_timestamp fps camera_id msg s)"
| ns_reach_synchronize:
    "ns_reachable rnd s \<Longrightarrow> ns_synchronize rnd now s = (res, s', out) \<Longrightarrow> ns_reachable rnd s'"

text \<open>
  The buffer as the grouping loop of \<open>synchronize\<close> leaves it, that is, the buffer the
  cleanup comprehension runs over.
\<close>

definition ns_marked_buffer :: "ns_state \<Rightarrow> ns_frame list" where
  "ns_marked_buffer s =
     snd (ns_group_loop (length (ns_initial_camera_data s))
            (sort (remdups (map nf_frame_number (ns_frames_buffer s))))
            ([], ns_frames_buffer s))"

text \<open>Camera and frame number of a buffered frame, and its grouped mark.\<close>

definition ns_view :: "ns_frame \<Rightarrow> string \<times> int" where
  "ns_view f = (nf_camera_id f, nf_frame_number f)"

definition ns_view_marked :: "ns_frame \<Rightarrow> string \<times> int \<times> bool" where
  "ns_view_marked f = (nf_camera_id f, nf_frame_number f, nf_grouped f)"

text \<open>
  The rate-control rule in the words of the specification (section 4.3), for comparison
  with \<open>ns_sampling\<close>: \<open>expected_frame = floor(elapsed \<times> fps)\<close>,
  \<open>delta = expected_frame - current_frame_number\<close>, and the three cases on \<open>delta\<close>.
\<close>

definition spec_sampling :: "real \<Rightarrow> real \<Rightarrow> int \<Rightarrow> real \<times> bool" where
  "spec_sampling elapsed fps current_frame_number =
     (let expected_frame = \<lfloor>elapsed * fps\<rfloor>;
          delta = expected_frame - current_frame_number
      in if delta > 0 then (of_int delta, SKIP)
         else if delta < 0 then (of_int \<bar>delta\<bar> / fps, WAIT)
         else (0, SKIP))"

text \<open>
  Scenario E1 of the specification: a service configured with \<open>fps = 30\<close> (retention 60 s,
  constructed at time 0) that has collected (A, frame 1, t=1.00), (B, 1, 1.01),
  (A, 2, 1.03), (B, 2, 1.04) in this order.
\<close>

definition E1_state :: "rounding \<Rightarrow> ns_state" where
  "E1_state rnd =
     ns_collect rnd 2 (104/100) 30 ''B'' None
       (ns_collect rnd 2 (103/100) 30 ''A'' None
         (ns_collect rnd 1 (101/100) 30 ''B'' None
           (ns_collect rnd 1 1 30 ''A'' None (ns_init 0 30 60 0))))"

text \<open>
  Two cameras, where frame 1 has arrived from both and frame 2 from camera A only.
\<close>

definition ns_partial_state :: ns_state where
  "ns_partial_state =
     ns_collect exact 2 (5/4) 30 ''A'' None
       (ns_collect exact 1 (9/8) 30 ''B'' None
         (ns_collect exact 1 1 30 ''A'' None (ns_init 0 30 60 0)))"

text \<open>
  The state after \<open>synchronize\<close> has been called in that state (and has raised), a third
  camera C has appeared with frame 2, and frame 2 has arrived from camera B.
\<close>

definition ns_remarked_state :: ns_state where
  "ns_remarked_state =
     ns_collect exact 2 (5/4) 30 ''B'' None
       (ns_collect exact 2 (5/4) 30 ''C'' None
         (fst (snd (ns_synchronize exact 2 ns_partial_state))))"

text \<open>
  Scenario E5: \<open>fps = 30\<close>, camera A first seen at timestamp 0 and now reporting frame 45
  at timestamp 1.0.
\<close>

definition E5_state :: ns_state where
  "E5_state =
     ns_collect exact 45 1 30 ''A'' None (ns_collect exact 1 0 30 ''A'' None (ns_init 0 30 60 0))"

text \<open>
  \<open>fps = 2\<close>, camera A first seen at timestamp 1 and then reporting frame 1 again with the
  earlier timestamp 0.25, so that its elapsed time is negative.
\<close>

definition ns_backwards_state :: ns_state where
  "ns_backwards_state =
     ns_collect exact 1 (1/4) 2 ''A'' None
       (ns_collect exact 1 1 2 ''A'' None (ns_init 0 2 60 0))"

section \<open>frame\_sync\_timestamp\_service.py: FrameSyncTimestampService\<close>

record ts_initial =
  ti_initial_delay :: real
  ti_start_time :: real

record ts_camera_data =
  tcd_frame_number :: int
  tcd_frame_timestamp :: real
  tcd_elapsed_time :: real
  tcd_delay :: real
  tcd_additional_info :: "payload option"

text \<open>
  A buffered frame. \<open>collect\<close> writes no \<open>grouped\<close> key; \<open>synchronize\<close> later sets it to
  the anchor's timestamp. \<open>tf_grouped\<close> is the result of \<open>frame.get("grouped")\<close>.
\<close>

record ts_frame =
  tf_frame_timestamp :: real
  tf_frame_number :: int
  tf_camera_id :: string
  tf_camera_data :: ts_camera_data
  tf_entry_time :: real
  tf_grouped :: "real option"

text \<open>
  A group handed to the sequencer is a Python list of the very dicts of \<open>frames_buffer\<close>.
  It is modelled by the list of their positions in \<open>frames_buffer\<close>, and read through
  the buffer when the callback receives it.
\<close>

record ts_state =
  ts_frame_seq :: "nat list FrameSequencingService"
  ts_initial_camera_data :: "(string \<times> ts_initial) list"
  ts_current_camera_data :: "(string \<times> ts_camera_data) list"
  ts_frames_buffer :: "ts_frame list"
  ts_fps :: real
  ts_retention_time :: real
  ts_latency_threshold :: real
  ts_tolerance :: real

definition ts_init :: "real \<Rightarrow> real \<Rightarrow> real \<Rightarrow> real \<Rightarrow> real \<Rightarrow> ts_state" where
  "ts_init backlog_check_interval fps retention_time latency_threshold now =
     \<lparr>ts_frame_seq = FrameSequencingService_init backlog_check_interval now,
      ts_initial_camera_data = [], ts_current_camera_data = [], ts_frames_buffer = [],
      ts_fps = fps, ts_retention_time = retention_time,
      ts_latency_threshold = latency_threshold, ts_tolerance = 0\<rparr>"

text \<open>
  \<open>collect(frame_number, frame_timestamp, fps, camera_id, **kwargs)\<close> at wall-clock time
  \<open>current_time\<close>. The tolerance is the float quotient \<open>1 / self.fps\<close>, which raises
  \<open>ZeroDivisionError\<close> when neither the configuration nor the message gave a frame rate;
  the delays and the elapsed time are float differences.
\<close>

definition ts_collect ::
  "rounding \<Rightarrow> real \<Rightarrow> int \<Rightarrow> real \<Rightarrow> real \<Rightarrow> string \<Rightarrow> payload option \<Rightarrow> ts_state
     \<Rightarrow> py_error + ts_state"
  where
  "ts_collect rnd current_time frame_number frame_timestamp fps camera_id msg s =
     (let fps' = (if ts_fps s = 0 then fps else ts_fps s)
      in if ts_tolerance s = 0 \<and> fps' = 0 then Inl ZeroDivisionError
         else
          (let tolerance = (if ts_tolerance s = 0 then rnd (1 / fps') else ts_tolerance s);
               icd = (if \<not> dict_contains (ts_initial_camera_data s) camera_id
                      then dict_set (ts_initial_camera_data s) camera_id
                             \<lparr>ti_initial_delay =
                                (if ts_latency_threshold s \<noteq> 0
                                 then min (ts_latency_threshold s)
                                        (rnd (current_time - frame_timestamp))
                                 else rnd (current_time - frame_timestamp)),
                              ti_start_time = current_time\<rparr>
                      else ts_initial_camera_data s);
               ini = (case map_of icd camera_id of
                        Some d \<Rightarrow> d
                      | None \<Rightarrow> \<lparr>ti_initial_delay = 0, ti_start_time = current_time\<rparr>);
               camera_data =
                 \<lparr>tcd_frame_number = frame_number, tcd_frame_timestamp = frame_timestamp,
                  tcd_elapsed_time = rnd (current_time - ti_start_time ini),
                  tcd_delay = rnd (rnd (current_time - frame_timestamp) - ti_initial_delay ini),
                  tcd_additional_info = msg\<rparr>
           in Inr (s\<lparr>ts_fps := fps', ts_tolerance := tolerance, ts_initial_camera_data := icd,
                     ts_current_camera_data :=
                       dict_set (ts_current_camera_data s) camera_id camera_data,
                     ts_frames_buffer := ts_frames_buffer s @
                       [\<lparr>tf_frame_timestamp = frame_timestamp, tf_frame_number = frame_number,
                         tf_camera_id = camera_id, tf_camera_data = camera_data,
                         tf_entry_time = current_time, tf_grouped = None\<rparr>]\<rparr>)))"

text \<open>
  Truthiness of \<open>frame.get("grouped")\<close>: \<open>None\<close> is falsy, and so is the float 0.0.
\<close>

definition truthy_grouped :: "real option \<Rightarrow> bool" where
  "truthy_grouped g = (case g of None \<Rightarrow> False | Some v \<Rightarrow> v \<noteq> 0)"

text \<open>
  The inner loop of \<open>synchronize\<close> for the anchor \<open>item\<close>: a scan of the whole buffer
  (positions paired with frames). A frame joins the group when it is not grouped, the
  absolute value of the float difference of its timestamp and the ANCHOR's timestamp is
  at most the tolerance, and no member of the group has its camera. The loop ends with
  \<open>Some\<close> of the group at the \<open>break\<close>, when the group has reached the number of cameras,
  and with \<open>None\<close> when the buffer is exhausted first.
\<close>

fun ts_inner_loop ::
  "rounding \<Rightarrow> ts_frame list \<Rightarrow> real \<Rightarrow> nat \<Rightarrow> ts_frame \<Rightarrow> (nat \<times> ts_frame) list \<Rightarrow> nat list
     \<Rightarrow> nat list option" where
  "ts_inner_loop rnd buf tol ncams item [] grp = None"
| "ts_inner_loop rnd buf tol ncams item ((j, frame) # rest) grp =
     (if truthy_grouped (tf_grouped frame) then ts_inner_loop rnd buf tol ncams item rest grp
      else if \<bar>rnd (tf_frame_timestamp frame - tf_frame_timestamp item)\<bar> \<le> tol
              \<and> \<not> list_ex (\<lambda>i. tf_camera_id (buf ! i) = tf_camera_id frame) grp
           then (if length (grp @ [j]) = ncams then Some (grp @ [j])
                 else ts_inner_loop rnd buf tol ncams item rest (grp @ [j]))
           else ts_inner_loop rnd buf tol ncams item rest grp)"

text \<open>\<open>g_frame["grouped"] = item["frame_timestamp"]\<close> for every member of the group.\<close>

definition ts_mark :: "nat list \<Rightarrow> real \<Rightarrow> ts_frame list \<Rightarrow> ts_frame list" where
  "ts_mark grp v buf =
     map (\<lambda>(i, f). if i \<in> set grp then f\<lparr>tf_grouped := Some v\<rparr> else f) (enumerate 0 buf)"

text \<open>
  The outer loop, over the positions of the buffer. The marks set for a completed group
  are seen by the later iterations.
\<close>

fun ts_outer_loop ::
  "rounding \<Rightarrow> real \<Rightarrow> nat \<Rightarrow> nat list \<Rightarrow> ts_frame list \<times> nat list FrameSequencingService
     \<Rightarrow> ts_frame list \<times> nat list FrameSequencingService" where
  "ts_outer_loop rnd tol ncams [] (buf, fs) = (buf, fs)"
| "ts_outer_loop rnd tol ncams (i # rest) (buf, fs) =
     (if truthy_grouped (tf_grouped (buf ! i)) then ts_outer_loop rnd tol ncams rest (buf, fs)
      else (case ts_inner_loop rnd buf tol ncams (buf ! i) (enumerate 0 buf) [i] of
              None \<Rightarrow> ts_outer_loop rnd tol ncams rest (buf, fs)
            | Some grp \<Rightarrow>
                ts_outer_loop rnd tol ncams rest
                  (ts_mark grp (tf_frame_timestamp (buf ! i)) buf, collect_group grp fs)))"

text \<open>
  \<open>synchronize(callback)\<close> at wall-clock time \<open>now\<close>: the state left behind and the
  groups handed to the callback, in call order, each as the list of its frames.
\<close>

definition ts_synchronize ::
  "rounding \<Rightarrow> real \<Rightarrow> ts_state \<Rightarrow> ts_state \<times> ts_frame list list" where
  "ts_synchronize rnd now s =
     (let (buf, fs) = ts_outer_loop rnd (ts_tolerance s) (length (ts_initial_camera_data s))
                        [0..<length (ts_frames_buffer s)] (ts_frames_buffer s, ts_frame_seq s);
          (refs, fs') = drain_groups (\<lambda>g. g \<noteq> []) (sequence fs);
          kept = filter (\<lambda>e. \<not> truthy_grouped (tf_grouped e)
                              \<and> rnd (now - tf_entry_time e) \<le> ts_retention_time s) buf
      in (s\<lparr>ts_frame_seq := fs', ts_frames_buffer := kept\<rparr>, map (map (\<lambda>i. buf ! i)) refs))"

text \<open>
  A run of collects, each given as (wall-clock time, frame number, frame timestamp, frame
  rate, camera); the first exception ends it.
\<close>

fun ts_collect_all ::
  "rounding \<Rightarrow> (real \<times> int \<times> real \<times> real \<times> string) list \<Rightarrow> ts_state \<Rightarrow> py_error + ts_state"
  where
  "ts_collect_all rnd [] s = Inr s"
| "ts_collect_all rnd ((current_time, frame_number, frame_timestamp, fps, camera_id) # rest) s =
     (case ts_collect rnd current_time frame_number frame_timestamp fps camera_id None s of
        Inl e \<Rightarrow> Inl e
      | Inr s' \<Rightarrow> ts_collect_all rnd rest s')"


text \<open>The grouping key of a delivered group: the minimum timestamp of its frames.\<close>

definition group_key :: "ts_frame list \<Rightarrow> real" where
  "group_key g = Min (set (map tf_frame_timestamp g))"

text \<open>Camera and timestamp of a frame, to display a delivered group.\<close>

definition ts_view :: "ts_frame \<Rightarrow> string \<times> real" where
  "ts_view f = (tf_camera_id f, tf_frame_timestamp f)"



text \<open>
  Three cameras at \<open>fps = 4\<close> (tolerance 0.25 s), all collected at wall-clock time 10:
  A at timestamp 1.0, B at 1.25, C at 0.75.
\<close>

definition three_cam_input :: "(real \<times> int \<times> real \<times> real \<times> string) list" where
  "three_cam_input = [(10, 1, 1, 4, ''A''), (10, 1, 5/4, 4, ''B''), (10, 1, 3/4, 4, ''C'')]"

text \<open>
  Three cameras at \<open>fps = 4\<close>, each camera's frames arriving in the order of their
  timestamps: A at 1.0 and 2.0, then B at 1.125 and 2.0, then C at 1.375 and 2.0.
\<close>

definition interleaved_input :: "(real \<times> int \<times> real \<times> real \<times> string) list" where
  "interleaved_input =
     [(10, 1, 1, 4, ''A''), (10, 2, 2, 4, ''A''), (10, 1, 9/8, 4, ''B''), (10, 2, 2, 4, ''B''),
      (10, 1, 11/8, 4, ''C''), (10, 2, 2, 4, ''C'')]"

text \<open>
  The states after these two runs. All timestamps, their differences and the tolerance
  1/4 are binary64 numbers, so no float operation of the two runs rounds.
\<close>

definition three_cam_state :: ts_state where
  "three_cam_state =
     (case ts_collect_all exact three_cam_input (ts_init 0 0 60 60 0) of
        Inr s \<Rightarrow> s | Inl e \<Rightarrow> ts_init 0 0 60 60 0)"

definition interleaved_state :: ts_state where
  "interleaved_state =
     (case ts_collect_all exact interleaved_input (ts_init 0 0 60 60 0) of
        Inr s \<Rightarrow> s | Inl e \<Rightarrow> ts_init 0 0 60 60 0)"

section \<open>message\_consumer\_kafka.py: MessageConsumer.start\<close>

text \<open>
  The fields of \<open>FrameSyncConfiguration\<close> that the loop reads.
\<close>

record FrameSyncConfiguration =
  cfg_backlog_check_interval :: real
  cfg_frame_sync_type :: "string option"
  cfg_ignore_initial_delay :: bool
  cfg_enable_sequencing :: bool
  cfg_seek_to_end :: bool
  cfg_unify :: bool

record MessageConsumer =
  mc_key :: "string option"
  mc_frame_sync_config :: "FrameSyncConfiguration option"

text \<open>
  A record on the bus: its key (absent, or bytes) and its value; \<open>br_value = None\<close> is a
  value that the deserializer \<open>json_deserializer\<close> cannot decode.
\<close>

record bus_record =
  br_key :: "string option"
  br_value :: "payload option"

text \<open>
  The collaborators of the loop (the synchronizer, the sequencer, the downstream callback,
  the clock and the bus) are its environment: for each message, the environment says what
  each of them does when the loop calls it. \<open>callback_raises\<close> is what the downstream
  callback does with this message. The loop calls the callback itself only in
  \<open>process_cv_module\<close>. With a sequencer the callback is called from the worker thread
  started at the sequencing interval, and in unify mode from the worker thread started on
  \<open>synchronize\<close>; a thread is a \<open>Spawn\<close> event here, and nothing that happens in it,
  an exception of the callback included, comes back to \<open>start\<close>.
\<close>

record env =
  collect_raises :: "py_error option"
  seq_collect_raises :: "py_error option"
  callback_raises :: "py_error option"
  sampling_result :: "py_error + (real \<times> bool)"
  seq_interval_elapsed :: bool
  backlog_interval_elapsed :: bool
  backlog_at_seek :: nat

text \<open>What the loop does to the outside, in order.\<close>

datatype event =
  Collect payload | SeqCollect payload | SpawnSequence | Callback payload | SpawnSynchronize
  | Sleep real | Commit nat | SeekToEnd nat | LogError py_error | Close

text \<open>
  The local variables of \<open>start\<close> that steer it, the consumer's position (the offset of
  the next record to fetch) and committed offset, and the events so far.
\<close>

record loop_state =
  frame_synchronization :: bool
  frame_sequencing :: bool
  actual_message_count :: nat
  skip_count :: real
  seek_to_end :: bool
  position :: nat
  committed :: nat
  trace :: "event list"

text \<open>How one iteration of the \<open>for\<close> loop ends.\<close>

datatype outcome = Continue | Completed | Break | Raised py_error

definition emit :: "event \<Rightarrow> loop_state \<Rightarrow> loop_state" where
  "emit ev st = st\<lparr>trace := trace st @ [ev]\<rparr>"

text \<open>\<open>self.consumer.commit()\<close> commits the consumer's position.\<close>

definition commit :: "loop_state \<Rightarrow> loop_state" where
  "commit st = emit (Commit (position st)) (st\<lparr>committed := position st\<rparr>)"

text \<open>\<open>self.consumer.seek_to_end()\<close> moves the position past the records still waiting.\<close>

definition consumer_seek_to_end :: "env \<Rightarrow> loop_state \<Rightarrow> loop_state" where
  "consumer_seek_to_end e st =
     emit (SeekToEnd (position st + backlog_at_seek e))
       (st\<lparr>position := position st + backlog_at_seek e\<rparr>)"

text \<open>Truthiness of an optional string: \<open>None\<close> and the empty string are falsy.\<close>

definition truthy_str :: "string option \<Rightarrow> bool" where
  "truthy_str x = (case x of None \<Rightarrow> False | Some k \<Rightarrow> k \<noteq> [])"

text \<open>
  \<open>check_key_condition(key, record)\<close>: \<open>key and key != record.key.decode("utf-8")\<close>;
  the \<open>decode\<close> of an absent record key raises \<open>AttributeError\<close>.
\<close>

definition check_key_condition :: "string option \<Rightarrow> bus_record \<Rightarrow> py_error + bool" where
  "check_key_condition key r =
     (if \<not> truthy_str key then Inr False
      else (case br_key r of
              None \<Rightarrow> Inl AttributeError
            | Some rk \<Rightarrow> Inr (key \<noteq> Some rk)))"

text \<open>
  \<open>single_camera_synchronization(camera_id, frame_sync)\<close>: the new skip count, after the
  sleep if the synchronizer said WAIT.
\<close>

definition single_camera_synchronization :: "env \<Rightarrow> loop_state \<Rightarrow> py_error option \<times> loop_state"
  where
  "single_camera_synchronization e st =
     (case sampling_result e of
        Inl err \<Rightarrow> (Some err, st)
      | Inr (skip_or_wait, logic) \<Rightarrow>
          if logic then (None, st\<lparr>skip_count := skip_or_wait\<rparr>)
          else (None, emit (Sleep skip_or_wait) (st\<lparr>skip_count := 0\<rparr>)))"

text \<open>
  \<open>process_frame_synchronization\<close>: at the backlog interval, and in unify mode, a worker
  thread is started on \<open>frame_sync.synchronize\<close>.
\<close>

definition process_frame_synchronization ::
  "FrameSyncConfiguration \<Rightarrow> env \<Rightarrow> loop_state \<Rightarrow> loop_state" where
  "process_frame_synchronization c e st =
     (if backlog_interval_elapsed e \<and> 0 < cfg_backlog_check_interval c
      then (if cfg_unify c then emit SpawnSynchronize st else st)
      else st)"

text \<open>\<open>process_cv_module\<close>: the synchronous downstream callback.\<close>

definition process_cv_module :: "payload \<Rightarrow> env \<Rightarrow> loop_state \<Rightarrow> py_error option \<times> loop_state"
  where
  "process_cv_module message e st =
     (case callback_raises e of
        Some err \<Rightarrow> (Some err, emit (Callback message) st)
      | None \<Rightarrow>
          (None, emit (Callback message)
                   (st\<lparr>actual_message_count := Suc (actual_message_count st)\<rparr>)))"

text \<open>The block \<open>if frame_synchronization:\<close> after the callback.\<close>

definition sync_block ::
  "FrameSyncConfiguration option \<Rightarrow> env \<Rightarrow> loop_state \<Rightarrow> outcome \<times> loop_state" where
  "sync_block cfg e st =
     (case cfg of
        None \<Rightarrow> (Raised AttributeError, st)
      | Some c \<Rightarrow>
          if cfg_ignore_initial_delay c \<and> \<not> seek_to_end st
          then (Break, (consumer_seek_to_end e (commit st))\<lparr>seek_to_end := True\<rparr>)
          else if cfg_seek_to_end c
          then (Break, consumer_seek_to_end e (commit st))
          else (let st1 = process_frame_synchronization c e st
                in if \<not> cfg_ignore_initial_delay c \<and> \<not> cfg_unify c
                   then (case single_camera_synchronization e st1 of
                           (Some err, st2) \<Rightarrow> (Raised err, st2)
                         | (None, st2) \<Rightarrow> (Completed, commit st2))
                   else (Completed, commit st1)))"

text \<open>The branch \<open>if frame_sequencing:\<close>.\<close>

definition sequencing_branch ::
  "FrameSyncConfiguration option \<Rightarrow> payload \<Rightarrow> env \<Rightarrow> loop_state \<Rightarrow> outcome \<times> loop_state"
  where
  "sequencing_branch cfg message e st =
     (case seq_collect_raises e of
        Some err \<Rightarrow> (Raised err, st)
      | None \<Rightarrow>
          (case cfg of
             None \<Rightarrow> (Raised AttributeError, emit (SeqCollect message) st)
           | Some c \<Rightarrow>
               (let st1 = emit (SeqCollect message) st;
                    st2 = (if seq_interval_elapsed e \<and> 0 < cfg_backlog_check_interval c
                           then emit SpawnSequence st1 else st1)
                in (Completed, commit st2))))"

text \<open>
  The \<open>else\<close> branch: the skip decision, the callback, the synchronization block, and
  the commit at the end of the loop body.
\<close>

definition processing_branch ::
  "FrameSyncConfiguration option \<Rightarrow> payload \<Rightarrow> env \<Rightarrow> loop_state \<Rightarrow> outcome \<times> loop_state"
  where
  "processing_branch cfg message e st =
     (if skip_count st > 0
      then (Continue, st\<lparr>skip_count := skip_count st - 1,
                          actual_message_count := Suc (actual_message_count st)\<rparr>)
      else (case (if (case cfg of None \<Rightarrow> True | Some c \<Rightarrow> \<not> cfg_unify c)
                  then process_cv_module message e st else (None, st)) of
              (Some err, st1) \<Rightarrow> (Raised err, st1)
            | (None, st1) \<Rightarrow>
                if frame_synchronization st1 then sync_block cfg e st1
                else (Completed, commit st1)))"

text \<open>
  The two lazy initialisations of the loop body: the synchronizer is created when the
  configuration names a synchronization type, the sequencer when it enables sequencing.
\<close>

definition init_synchronization ::
  "FrameSyncConfiguration option \<Rightarrow> loop_state \<Rightarrow> loop_state" where
  "init_synchronization cfg st =
     st\<lparr>frame_synchronization := frame_synchronization st \<or>
          (case cfg of None \<Rightarrow> False | Some c \<Rightarrow> truthy_str (cfg_frame_sync_type c))\<rparr>"

definition init_sequencing ::
  "FrameSyncConfiguration option \<Rightarrow> loop_state \<Rightarrow> loop_state" where
  "init_sequencing cfg st =
     st\<lparr>frame_sequencing := frame_sequencing st \<or>
          (case cfg of None \<Rightarrow> False | Some c \<Rightarrow> cfg_enable_sequencing c)\<rparr>"

text \<open>\<open>if frame_synchronization and skip_count == 0: frame_synchronization.collect(\<dots>)\<close>\<close>

definition collect_step :: "payload \<Rightarrow> env \<Rightarrow> loop_state \<Rightarrow> py_error option \<times> loop_state" where
  "collect_step message e st =
     (if frame_synchronization st \<and> skip_count st = 0
      then (case collect_raises e of
              Some err \<Rightarrow> (Some err, st)
            | None \<Rightarrow> (None, emit (Collect message) st))
      else (None, st))"

text \<open>The loop body after the key filter.\<close>

definition loop_body ::
  "FrameSyncConfiguration option \<Rightarrow> payload \<Rightarrow> env \<Rightarrow> loop_state \<Rightarrow> outcome \<times> loop_state"
  where
  "loop_body cfg message e st =
     (case collect_step message e (init_synchronization cfg st) of
        (Some err, st2) \<Rightarrow> (Raised err, st2)
      | (None, st2) \<Rightarrow>
          (let st3 = init_sequencing cfg st2
           in if frame_sequencing st3
              then sequencing_branch cfg message e st3
              else processing_branch cfg message e st3))"

text \<open>
  One iteration of \<open>for message_index, record in enumerate(self.consumer)\<close>. The consumer
  deserializes the value when it yields the record, so a value that does not decode raises
  out of the iteration before the loop body runs.
\<close>

definition step :: "MessageConsumer \<Rightarrow> env \<Rightarrow> bus_record \<Rightarrow> loop_state \<Rightarrow> outcome \<times> loop_state"
  where
  "step mc e r st0 =
     (case br_value r of
        None \<Rightarrow> (Raised ValueError, st0)
      | Some message \<Rightarrow>
          (let st = st0\<lparr>position := Suc (position st0)\<rparr>
           in case check_key_condition (mc_key mc) r of
                Inl err \<Rightarrow> (Raised err, st)
              | Inr True \<Rightarrow> (Continue, st)
              | Inr False \<Rightarrow> loop_body (mc_frame_sync_config mc) message e st))"

text \<open>
  \<open>start()\<close> on the records that the bus delivers, each with its environment. A
  \<open>break\<close> re-enters the \<open>for\<close> loop at the new position, past the records skipped
  by the seek. On an exception that reaches \<open>start\<close>, the handler calls
  \<open>logger.error\<close> (the event \<open>LogError\<close>; the call passes the exception as a format
  argument to a message without placeholder, so what the logging module then emits is
  not modelled) and re-raises, and the \<open>finally\<close> clause closes the consumer. When the records are exhausted the loop is blocked in the receive: the result
  \<open>None\<close> says that \<open>start\<close> has not raised so far.
\<close>

fun run ::
  "MessageConsumer \<Rightarrow> (bus_record \<times> env) list \<Rightarrow> loop_state \<Rightarrow> py_error option \<times> loop_state"
  where
  "run mc [] st = (None, st)"
| "run mc ((r, e) # rest) st =
     (case step mc e r st of
        (Raised err, st') \<Rightarrow> (Some err, emit Close (emit (LogError err) st'))
      | (Break, st') \<Rightarrow> run mc (drop (backlog_at_seek e) rest) st'
      | (Continue, st') \<Rightarrow> run mc rest st'
      | (Completed, st') \<Rightarrow> run mc rest st')"

text \<open>The state in which \<open>start\<close> enters its loop.\<close>

definition start_state :: loop_state where
  "start_state =
     \<lparr>frame_synchronization = False, frame_sequencing = False, actual_message_count = 0,
      skip_count = 0, seek_to_end = False, position = 0, committed = 0, trace = []\<rparr>"

text \<open>
  A consumer with number synchronization, no sequencing, not in unify mode, and without
  any seek-to-end policy.
\<close>

definition number_sync_consumer :: MessageConsumer where
  "number_sync_consumer =
     \<lparr>mc_key = None,
      mc_frame_sync_config = Some
        \<lparr>cfg_backlog_check_interval = 0, cfg_frame_sync_type = Some ''number'',
         cfg_ignore_initial_delay = False, cfg_enable_sequencing = False,
         cfg_seek_to_end = False, cfg_unify = False\<rparr>\<rparr>"

text \<open>
  An environment in which nothing raises, no interval has elapsed, and \<open>sampling\<close> asks
  neither for a skip nor for a wait.
\<close>

definition quiet_env :: env where
  "quiet_env =
     \<lparr>collect_raises = None, seq_collect_raises = None, callback_raises = None,
      sampling_result = Inr (0, SKIP), seq_interval_elapsed = False,
      backlog_interval_elapsed = False, backlog_at_seek = 0\<rparr>"

text \<open>A record without key whose value decodes to the given message.\<close>

definition bus_msg :: "payload \<Rightarrow> bus_record" where
  "bus_msg m = \<lparr>br_key = None, br_value = Some m\<rparr>"

text \<open>
  Whether the loop has a sequencer for this message: it has one already, or the
  configuration enables sequencing.
\<close>

definition sequencing_on :: "MessageConsumer \<Rightarrow> loop_state \<Rightarrow> bool" where
  "sequencing_on mc st =
     (frame_sequencing st \<or>
      (case mc_frame_sync_config mc of None \<Rightarrow> False | Some c \<Rightarrow> cfg_enable_sequencing c))"

text \<open>
  The message is consumed by a skip decision: it decodes, passes the key filter, there
  is no sequencer, and the skip counter is positive (so that \<open>collect\<close> is not called).
\<close>

definition skip_decision :: "MessageConsumer \<Rightarrow> bus_record \<Rightarrow> loop_state \<Rightarrow> bool" where
  "skip_decision mc r st =
     (br_value r \<noteq> None \<and> check_key_condition (mc_key mc) r = Inr False \<and>
      \<not> sequencing_on mc st \<and> 0 < skip_count st)"

text \<open>
  The message reaches the synchronous callback: it decodes, passes the key filter,
  \<open>collect\<close> (if called) returns, there is no sequencer, the skip counter is not positive,
  and the stage is not in unify mode.
\<close>

definition reaches_callback :: "MessageConsumer \<Rightarrow> env \<Rightarrow> bus_record \<Rightarrow> loop_state \<Rightarrow> bool" where
  "reaches_callback mc e r st =
     (br_value r \<noteq> None \<and> check_key_condition (mc_key mc) r = Inr False \<and>
      collect_raises e = None \<and> \<not> sequencing_on mc st \<and> \<not> 0 < skip_count st \<and>
      (case mc_frame_sync_config mc of None \<Rightarrow> True | Some c \<Rightarrow> \<not> cfg_unify c))"

text \<open>No commit among the events.\<close>

definition no_commit :: "event list \<Rightarrow> bool" where
  "no_commit evs = (\<forall>n. Commit n \<notin> set evs)"

text \<open>
  What a part of the loop body does to the committed offset, from the state \<open>st\<close> in
  which it starts to the state \<open>st'\<close> in which it ends with the outcome \<open>out\<close>: when it
  runs to the end of the body, the last thing it does is the one commit, of the current
  position; when it breaks, it has committed the current position and then sought to the
  end; when it continues, it has committed nothing and done nothing to the outside; when
  it raises, it has committed nothing and left the skip counter as it was.
\<close>

definition discipline :: "loop_state \<Rightarrow> outcome \<Rightarrow> loop_state \<Rightarrow> bool" where
  "discipline st out st' =
    ((out = Completed \<longrightarrow>
        committed st' = position st' \<and> position st' = position st \<and>
        (\<exists>evs. trace st' = trace st @ evs @ [Commit (position st')] \<and> no_commit evs)) \<and>
     (out = Break \<longrightarrow>
        committed st' = position st \<and> position st \<le> position st' \<and>
        (\<exists>evs n. trace st' = trace st @ evs @ [Commit (position st), SeekToEnd n]
           \<and> no_commit evs)) \<and>
     (out = Continue \<longrightarrow>
        committed st' = committed st \<and> trace st' = trace st \<and> position st' = position st) \<and>
     (\<forall>err. out = Raised err \<longrightarrow>
        committed st' = committed st \<and> skip_count st' = skip_count st \<and>
        position st' = position st \<and>
        (\<exists>evs. trace st' = trace st @ evs \<and> no_commit evs)))"

text \<open>
  The state after the first of two messages, where \<open>sampling\<close> has asked to skip one frame.
\<close>

definition after_M1 :: loop_state where
  "after_M1 =
     snd (step number_sync_consumer (quiet_env\<lparr>sampling_result := Inr (1, SKIP)\<rparr>)
            (bus_msg ''M1'') start_state)"

text \<open>A consumer without synchronization configuration, and a callback that raises.\<close>

text \<open>The stage is in unify mode.\<close>

definition unify_mode :: "MessageConsumer \<Rightarrow> bool" where
  "unify_mode mc =
     (case mc_frame_sync_config mc of None \<Rightarrow> False | Some c \<Rightarrow> cfg_unify c)"

text \<open>
  The loop body itself raises nothing on this message while a sequencer is active: the
  message decodes and passes the key filter, and neither \<open>collect\<close> of the synchronizer
  nor \<open>collect\<close> of the sequencer raises.
\<close>

definition sequenced_quietly :: "MessageConsumer \<Rightarrow> env \<Rightarrow> bus_record \<Rightarrow> loop_state \<Rightarrow> bool"
  where
  "sequenced_quietly mc e r st =
     (br_value r \<noteq> None \<and> check_key_condition (mc_key mc) r = Inr False \<and>
      collect_raises e = None \<and> seq_collect_raises e = None \<and>
      sequencing_on mc st \<and> mc_frame_sync_config mc \<noteq> None)"

text \<open>A consumer with sequencing enabled and no synchronization.\<close>

definition sequencing_consumer :: MessageConsumer where
  "sequencing_consumer =
     \<lparr>mc_key = None,
      mc_frame_sync_config = Some
        \<lparr>cfg_backlog_check_interval = 1, cfg_frame_sync_type = None,
         cfg_ignore_initial_delay = False, cfg_enable_sequencing = True,
         cfg_seek_to_end = False, cfg_unify = False\<rparr>\<rparr>"

definition plain_consumer :: MessageConsumer where
  "plain_consumer = \<lparr>mc_key = None, mc_frame_sync_config = None\<rparr>"

definition failing_env :: env where
  "failing_env = quiet_env\<lparr>callback_raises := Some ValueError\<rparr>"

section \<open>Results on the FrameCache\<close>

lemma dict_set_absent: "\<not> dict_contains d k \<Longrightarrow> dict_set d k v = d @ [(k, v)]"
  by (induction d) (auto simp: dict_contains_def)

lemma dict_pop_absent: "\<not> dict_contains d k \<Longrightarrow> dict_pop d k = d"
  by (induction d) (auto simp: dict_contains_def dict_pop_def)

lemma dict_pop_not_contains: "\<not> dict_contains (dict_pop d k) k"
  by (auto simp: dict_contains_def dict_pop_def)

lemma dict_pop_length:
  "distinct (map fst d) \<Longrightarrow> dict_contains d k \<Longrightarrow> Suc (length (dict_pop d k)) = length d"
proof (induction d)
  case Nil
  then show ?case by (simp add: dict_contains_def)
next
  case (Cons kv d)
  show ?case
  proof (cases "fst kv = k")
    case True
    with Cons.prems have "\<not> dict_contains d k"
      by (auto simp: dict_contains_def)
    then have "dict_pop d k = d" by (rule dict_pop_absent)
    with True show ?thesis by (simp add: dict_pop_def)
  next
    case False
    with Cons.prems have "dict_contains d k" "distinct (map fst d)"
      by (auto simp: dict_contains_def)
    with Cons.IH have "Suc (length (dict_pop d k)) = length d" by simp
    with False show ?thesis by (simp add: dict_pop_def)
  qed
qed

text \<open>
  What \<open>add_frame\<close> does on overflow, for every cache: a cache that is full
  (\<open>len = max_size > 0\<close>) and receives a key it does not hold is left exactly as it was.
  The pair removed by \<open>popitem()\<close> is the one just inserted; the oldest entry stays.
\<close>

lemma add_frame_overflow_drops_new:
  assumes "int (length (cache fc)) = max_size fc" and "max_size fc \<noteq> 0"
    and "\<not> dict_contains (cache fc) ts"
  shows "add_frame fc ts v = Inr fc"
  using assms
  by (simp add: add_frame_def Let_def dict_set_absent dict_popitem_def)

text \<open>
  Re-insertion of a timestamp the cache holds (part R2 of the specification): the entry
  moves to the most recent position with the new record, the other entries keep their
  order, and nothing is evicted as long as the cache was within its bound.
\<close>

lemma add_frame_reinsert:
  assumes "distinct (map fst (cache fc))" and "dict_contains (cache fc) ts"
    and "int (length (cache fc)) \<le> max_size fc"
  shows "add_frame fc ts v = Inr (fc\<lparr>cache := dict_pop (cache fc) ts @ [(ts, v)]\<rparr>)"
proof -
  have len: "Suc (length (dict_pop (cache fc) ts)) = length (cache fc)"
    using assms(1,2) by (rule dict_pop_length)
  have "dict_set (dict_pop (cache fc) ts) ts v = dict_pop (cache fc) ts @ [(ts, v)]"
    by (rule dict_set_absent) (rule dict_pop_not_contains)
  moreover have "\<not> int (Suc (length (dict_pop (cache fc) ts))) > max_size fc"
    using len assms(3) by simp
  ultimately show ?thesis
    using assms(2) by (simp add: add_frame_def Let_def)
qed

text \<open>
  C3 (FrameCache overflow evicts the oldest entry). The source does not do this. With
  \<open>max_size = 2\<close> and the cache holding timestamps 1 and 2 (inserted in this order), adding
  timestamp 3 leaves the cache holding 1 and 2: the oldest entry (timestamp 1) is
  retained and the newly added one is the entry removed. The statement of C3 requires the
  result to hold timestamps 2 and 3.
\<close>

theorem add_frame_overflow_evicts_newest:
  "add_frame \<lparr>cache = [(1::real, ''r1''), (2, ''r2'')], max_size = 2\<rparr> 3 ''r3''
     = Inr \<lparr>cache = [(1, ''r1''), (2, ''r2'')], max_size = 2\<rparr>"
  by (simp add: add_frame_def dict_contains_def dict_popitem_def)

text \<open>
  Range extraction when insertion order is timestamp order: the scan then returns exactly
  the records below the threshold and leaves exactly the others.
\<close>

lemma scan_before_sorted:
  "sorted (map fst d) \<Longrightarrow>
     scan_before d t = (map snd (filter (\<lambda>kv. fst kv < t) d),
                        map fst (filter (\<lambda>kv. fst kv < t) d))"
proof (induction d)
  case Nil
  then show ?case by simp
next
  case (Cons kv d)
  obtain ts frame where kv: "kv = (ts, frame)" by (cases kv)
  show ?case
  proof (cases "ts < t")
    case True
    with Cons kv show ?thesis by simp
  next
    case False
    with Cons.prems kv have "\<forall>x \<in> set d. \<not> fst x < t" by fastforce
    then have "filter (\<lambda>kv. fst kv < t) d = []" by (simp add: filter_empty_conv)
    with False kv show ?thesis by simp
  qed
qed

text \<open>
  C5 (range-extraction exactness, including caches whose insertion order is not timestamp
  order). The source stops at the first entry that is not below the threshold. Starting
  from an empty cache, \<open>add_frame(1, r1)\<close>, \<open>add_frame(2, r2)\<close>, \<open>add_frame(1, r1b)\<close>
  gives the cache \<open>[2 \<mapsto> r2, 1 \<mapsto> r1b]\<close>. On it \<open>get_and_remove_frames_before(2)\<close>
  returns no record and removes nothing, although the record at timestamp 1 is below the
  threshold: C5 requires \<open>[r1b]\<close> to be returned and only timestamp 2 to remain.
\<close>

theorem get_and_remove_frames_before_misses_reinserted:
  "add_frame (FrameCache_init 1000) (1::real) ''r1''
     = Inr \<lparr>cache = [(1, ''r1'')], max_size = 1000\<rparr> \<and>
   add_frame \<lparr>cache = [(1::real, ''r1'')], max_size = 1000\<rparr> 2 ''r2''
     = Inr \<lparr>cache = [(1, ''r1''), (2, ''r2'')], max_size = 1000\<rparr> \<and>
   add_frame \<lparr>cache = [(1::real, ''r1''), (2, ''r2'')], max_size = 1000\<rparr> 1 ''r1b''
     = Inr \<lparr>cache = [(2, ''r2''), (1, ''r1b'')], max_size = 1000\<rparr> \<and>
   get_and_remove_frames_before \<lparr>cache = [(2::real, ''r2''), (1, ''r1b'')], max_size = 1000\<rparr> 2
     = ([], \<lparr>cache = [(2, ''r2''), (1, ''r1b'')], max_size = 1000\<rparr>)"
  by (simp add: add_frame_def FrameCache_init_def dict_contains_def dict_pop_def
      get_and_remove_frames_before_def)

section \<open>Results on the FrameSequencingService\<close>

text \<open>
  C6, as stated (calling \<open>sequence()\<close> twice leaves the service in the same state as
  calling it once, and the second call does not discard pending output), fails: with one
  collected frame carrying the message \<open>m1\<close>, the state after two calls differs from the
  state after one call; after one call \<open>next()\<close> returns \<open>m1\<close>, after two calls it
  returns \<open>None\<close>, the pending item having been discarded.
\<close>

theorem sequence_twice_discards_pending:
  "sequence (sequence
      (\<lparr>duration = 0, temp_buffer = [],
        frames_buffer = [\<lparr>se_frame_timestamp = 1, se_camera_id = ''A'', se_entry_time = 0,
                          se_additional_info = Some ''m1''\<rparr>],
        grouped_frames_buffer = [], last_sequence_time = 0\<rparr> :: unit FrameSequencingService))
    \<noteq> sequence
      \<lparr>duration = 0, temp_buffer = [],
        frames_buffer = [\<lparr>se_frame_timestamp = 1, se_camera_id = ''A'', se_entry_time = 0,
                          se_additional_info = Some ''m1''\<rparr>],
        grouped_frames_buffer = [], last_sequence_time = 0\<rparr> \<and>
   fst (seq_next (sequence
      (\<lparr>duration = 0, temp_buffer = [],
        frames_buffer = [\<lparr>se_frame_timestamp = 1, se_camera_id = ''A'', se_entry_time = 0,
                          se_additional_info = Some ''m1''\<rparr>],
        grouped_frames_buffer = [], last_sequence_time = 0\<rparr> :: unit FrameSequencingService)))
    = Inr (Some ''m1'') \<and>
   fst (seq_next (sequence (sequence
      (\<lparr>duration = 0, temp_buffer = [],
        frames_buffer = [\<lparr>se_frame_timestamp = 1, se_camera_id = ''A'', se_entry_time = 0,
                          se_additional_info = Some ''m1''\<rparr>],
        grouped_frames_buffer = [], last_sequence_time = 0\<rparr> :: unit FrameSequencingService))))
    = Inr None"
  by (simp add: sequence_def seq_next_def)

text \<open>
  C6, amended. For every state of the service: the second of two \<open>sequence()\<close> calls with
  no \<open>collect\<close> in between produces no additional output, as it leaves the output queue
  \<open>temp_buffer\<close> empty, so that \<open>next()\<close> returns \<open>None\<close> and changes nothing; the state
  after two calls is the state after one call with the output queue emptied; it equals the
  state after one call exactly when no frame was waiting in \<open>frames_buffer\<close> at the first
  call; and from the second call on, further calls change nothing.
\<close>

theorem sequence_twice_state:
  "sequence (sequence fs) = (sequence fs)\<lparr>temp_buffer := []\<rparr> \<and>
   seq_next (sequence (sequence fs)) = (Inr None, sequence (sequence fs)) \<and>
   (sequence (sequence fs) = sequence fs) = (frames_buffer fs = []) \<and>
   sequence (sequence (sequence fs)) = sequence (sequence fs)"
proof -
  have a: "sequence (sequence fs) = (sequence fs)\<lparr>temp_buffer := []\<rparr>"
    by (simp add: sequence_def)
  have b: "seq_next (sequence (sequence fs)) = (Inr None, sequence (sequence fs))"
    by (simp add: sequence_def seq_next_def)
  have "(sequence (sequence fs) = sequence fs) = (temp_buffer (sequence fs) = [])"
    unfolding a by (cases "sequence fs") auto
  also have "\<dots> = (frames_buffer fs = [])"
    using length_sort [of se_frame_timestamp "frames_buffer fs"]
    by (auto simp: sequence_def simp del: length_sort)
  finally have c: "(sequence (sequence fs) = sequence fs) = (frames_buffer fs = [])" .
  have d: "sequence (sequence (sequence fs)) = sequence (sequence fs)"
    by (simp add: sequence_def)
  from a b c d show ?thesis by blast
qed

section \<open>Results on the FrameSyncNumberService\<close>

lemmas ns_eval = ns_sampling_def ns_collect_def ns_init_def dict_contains_def py_int_def Let_def
  exact_def

lemma py_int_floor: "0 \<le> x \<Longrightarrow> py_int x = \<lfloor>x\<rfloor>"
  by (simp add: py_int_def)

text \<open>
  C9, as stated, fails where the elapsed time is negative and \<open>elapsed \<times> fps\<close> is not an
  integer: \<open>int()\<close> truncates towards zero and is not the floor there. With \<open>fps = 2\<close>,
  camera A first seen at timestamp 1 and now at frame 1 with timestamp 0.25, the elapsed
  time is -0.75 and \<open>sampling\<close> returns (1 second, WAIT), while the stated rule
  (\<open>floor(-1.5) = -2\<close>, \<open>delta = -3\<close>) gives (1.5 seconds, WAIT). Every number in this
  run is a binary64 number, so no operation rounds.
\<close>

theorem ns_sampling_truncates_not_floor:
  "map_of (ns_current_camera_data ns_backwards_state) ''A''
     = Some \<lparr>cd_frame_number = 1, cd_frame_timestamp = 1/4, cd_elapsed_time = - (3/4),
             cd_additional_info = None\<rparr> \<and>
   ns_fps ns_backwards_state = 2 \<and>
   ns_sampling exact ns_backwards_state ''A'' = Inr (1, WAIT) \<and>
   spec_sampling (- (3/4)) 2 1 = (3/2, WAIT)"
  by (simp add: ns_backwards_state_def ns_eval spec_sampling_def)

text \<open>
  C9, amended. For every camera with recorded state and \<open>fps \<noteq> 0\<close>, whatever the
  rounding of the float operations: \<open>sampling\<close> computes \<open>expected_frame\<close> as the float
  product \<open>elapsed \<times> fps\<close> truncated towards zero (Python's \<open>int()\<close>) and
  \<open>delta = expected_frame - current_frame_number\<close>; it returns (delta, SKIP) when
  \<open>delta > 0\<close>, (the absolute value of the float quotient \<open>delta / fps\<close>, in seconds, WAIT)
  when \<open>delta < 0\<close>, and (0, SKIP) when \<open>delta = 0\<close>; hence it returns WAIT iff the
  camera is ahead of its expected frame. When the float product is not negative, its
  truncation is its floor.
\<close>

theorem ns_sampling_rate_control:
  assumes "map_of (ns_current_camera_data s) camera_id = Some cd" and "ns_fps s \<noteq> 0"
  shows "(let delta = py_int (rnd (cd_elapsed_time cd * ns_fps s)) - cd_frame_number cd
          in (0 < delta \<longrightarrow> ns_sampling rnd s camera_id = Inr (of_int delta, SKIP)) \<and>
             (delta < 0 \<longrightarrow>
                ns_sampling rnd s camera_id = Inr (\<bar>rnd (of_int delta / ns_fps s)\<bar>, WAIT)) \<and>
             (delta = 0 \<longrightarrow> ns_sampling rnd s camera_id = Inr (0, SKIP)) \<and>
             ((\<exists>w. ns_sampling rnd s camera_id = Inr (w, WAIT)) = (delta < 0))) \<and>
         (0 \<le> rnd (cd_elapsed_time cd * ns_fps s) \<longrightarrow>
            py_int (rnd (cd_elapsed_time cd * ns_fps s))
              = \<lfloor>rnd (cd_elapsed_time cd * ns_fps s)\<rfloor>)"
proof -
  have fl: "0 \<le> rnd (cd_elapsed_time cd * ns_fps s) \<longrightarrow>
            py_int (rnd (cd_elapsed_time cd * ns_fps s))
              = \<lfloor>rnd (cd_elapsed_time cd * ns_fps s)\<rfloor>"
    by (simp add: py_int_floor)
  define delta where
    "delta = py_int (rnd (cd_elapsed_time cd * ns_fps s)) - cd_frame_number cd"
  have neg: "ns_sampling rnd s camera_id = Inr (\<bar>rnd (of_int delta / ns_fps s)\<bar>, WAIT)"
    if "delta < 0"
    using assms that unfolding ns_sampling_def Let_def delta_def by simp
  have nonneg: "0 \<le> delta \<Longrightarrow> ns_sampling rnd s camera_id = Inr (of_int delta, SKIP)"
    using assms by (simp add: ns_sampling_def Let_def delta_def max_def del: of_int_diff)
  have "(0 < delta \<longrightarrow> ns_sampling rnd s camera_id = Inr (of_int delta, SKIP)) \<and>
        (delta < 0 \<longrightarrow>
           ns_sampling rnd s camera_id = Inr (\<bar>rnd (of_int delta / ns_fps s)\<bar>, WAIT)) \<and>
        (delta = 0 \<longrightarrow> ns_sampling rnd s camera_id = Inr (0, SKIP)) \<and>
        ((\<exists>w. ns_sampling rnd s camera_id = Inr (w, WAIT)) = (delta < 0))"
    using neg nonneg by (cases "delta < 0") (auto simp: SKIP_def WAIT_def)
  with fl show ?thesis
    unfolding delta_def Let_def by blast
qed

text \<open>
  The rounding decides the expected frame: where the float product rounds up to 1 (as it
  does in binary64 for the frame rate 3 and the elapsed time that is the binary64 number
  next to 1/3, whose exact product is below 1), a camera at frame 0 is told to skip one
  frame.
\<close>

lemma ns_sampling_rounded_product:
  assumes "map_of (ns_current_camera_data s) camera_id = Some cd"
    and "cd_frame_number cd = 0" and "rnd (cd_elapsed_time cd * ns_fps s) = 1"
  shows "ns_sampling rnd s camera_id = Inr (1, SKIP)"
  using assms by (simp add: ns_sampling_def py_int_def Let_def)

text \<open>
  Without a frame rate (\<open>fps = 0\<close> in the configuration and in the first message) a camera
  whose frame number is ahead of the expected frame makes the division by \<open>fps\<close> raise.
\<close>

lemma ns_sampling_zero_fps:
  assumes "map_of (ns_current_camera_data s) camera_id = Some cd" and "ns_fps s = 0"
    and "py_int (rnd (cd_elapsed_time cd * ns_fps s)) < cd_frame_number cd"
  shows "ns_sampling rnd s camera_id = Inl ZeroDivisionError"
  using assms by (simp add: ns_sampling_def Let_def)

text \<open>
  The rule at scenario E5: elapsed 1.0, \<open>fps = 30\<close>, frame 45, so \<open>expected_frame = 30\<close>,
  \<open>delta = -15\<close> and the result is (0.5 seconds, WAIT). The product 30 and the quotient
  -0.5 are binary64 numbers, so neither operation rounds.
\<close>

theorem ns_sampling_rate_control_witness:
  "map_of (ns_current_camera_data E5_state) ''A''
     = Some \<lparr>cd_frame_number = 45, cd_frame_timestamp = 1, cd_elapsed_time = 1,
             cd_additional_info = None\<rparr> \<and>
   ns_fps E5_state \<noteq> 0 \<and>
   py_int (exact (1 * ns_fps E5_state)) - 45 = - 15 \<and>
   ns_sampling exact E5_state ''A'' = Inr (1/2, WAIT)"
proof -
  have m: "map_of (ns_current_camera_data E5_state) ''A''
     = Some \<lparr>cd_frame_number = 45, cd_frame_timestamp = 1, cd_elapsed_time = 1,
             cd_additional_info = None\<rparr>"
    by (simp add: E5_state_def ns_eval)
  have f: "ns_fps E5_state = 30"
    by (simp add: E5_state_def ns_eval)
  then have p: "ns_fps E5_state \<noteq> 0" by simp
  have d: "py_int (exact (1 * ns_fps E5_state)) - 45 = - 15"
    by (simp add: f py_int_def exact_def)
  show ?thesis
    using ns_sampling_rate_control [OF m p, of exact] m p d f
    by (simp add: Let_def exact_def)
qed

lemma ns_group_loop_entry:
  "ns_group_loop n ns (gf, buf) = (gf', buf') \<Longrightarrow> \<forall>f \<in> set buf. nf_entry_time f = None
     \<Longrightarrow> \<forall>f \<in> set buf'. nf_entry_time f = None"
proof (induction ns arbitrary: gf buf)
  case Nil
  then show ?case by simp
next
  case (Cons a ns)
  have "\<forall>f \<in> set (ns_mark a buf). nf_entry_time f = None"
    using Cons.prems(2) by (auto simp: ns_mark_def)
  with Cons show ?case
    by (auto simp: Let_def split: if_splits)
qed

lemma ns_cleanup_subset: "ns_cleanup rnd now r buf = Inr kept \<Longrightarrow> set kept \<subseteq> set buf"
  by (induction buf arbitrary: kept) (auto split: if_splits option.splits sum.splits)

lemma ns_cleanup_None:
  "\<forall>f \<in> set buf. nf_entry_time f = None \<Longrightarrow>
     ns_cleanup rnd now r buf
       = (if \<forall>f \<in> set buf. nf_grouped f then Inr [] else Inl TypeError)"
  by (induction buf) auto

text \<open>
  Two facts hold in every state the service can reach: no buffered frame has an entry
  time, and the sequencer of the service holds no group.
\<close>

lemma ns_reachable_inv:
  "ns_reachable rnd s \<Longrightarrow>
     (\<forall>f \<in> set (ns_frames_buffer s). nf_entry_time f = None) \<and>
     grouped_frames_buffer (ns_frame_seq s) = []"
proof (induction rule: ns_reachable.induct)
  case (ns_reach_init interval fps retention now)
  then show ?case by (simp add: ns_init_def FrameSequencingService_init_def)
next
  case (ns_reach_collect s frame_number frame_timestamp fps camera_id msg)
  then show ?case by (simp add: ns_collect_def Let_def)
next
  case (ns_reach_synchronize s now res s' out)
  obtain gf buf where gl:
    "ns_group_loop (length (ns_initial_camera_data s))
       (sort (remdups (map nf_frame_number (ns_frames_buffer s))))
       ([], ns_frames_buffer s) = (gf, buf)"
    by (cases "ns_group_loop (length (ns_initial_camera_data s))
            (sort (remdups (map nf_frame_number (ns_frames_buffer s))))
            ([], ns_frames_buffer s)")
  have b: "\<forall>f \<in> set buf. nf_entry_time f = None"
    using ns_group_loop_entry [OF gl] ns_reach_synchronize.IH by simp
  show ?case
    using ns_reach_synchronize.hyps(2) ns_reach_synchronize.IH b gl
      ns_cleanup_subset [of rnd now "ns_retention_time s" buf]
    by (auto simp: ns_synchronize_def Let_def drain_groups_def sequence_def
        split: sum.splits prod.splits)
qed

text \<open>
  In every reachable state, \<open>synchronize\<close> hands no group to the callback: the complete
  groups it finds go to the local list \<open>grouped_frames\<close> only, \<open>collect_group\<close> is never
  called, and the drain loop finds the sequencer empty.
\<close>

lemma ns_reachable_delivers_nothing:
  assumes "ns_reachable rnd s"
    and "ns_synchronize rnd now s = (res, s', delivered, grouped_frames)"
  shows "delivered = []"
proof -
  have "grouped_frames_buffer (ns_frame_seq s) = []"
    using ns_reachable_inv [OF assms(1)] by simp
  then show ?thesis
    using assms(2)
    by (auto simp: ns_synchronize_def Let_def drain_groups_def sequence_def
        split: sum.splits prod.splits)
qed

text \<open>
  C1 (number-mode grouping delivers complete groups; scenario E1 delivers
  \<open>[{A1, B1}, {A2, B2}]\<close>). On the E1 input, whatever the rounding of the elapsed times,
  \<open>synchronize\<close> returns normally, finds both complete groups (the local
  \<open>grouped_frames\<close> is \<open>[[A1, B1], [A2, B2]]\<close>), marks and evicts all four frames, and
  hands NO group to the callback.
\<close>

theorem ns_synchronize_lockstep_delivers_nothing:
  "(case ns_synchronize rnd 2 (E1_state rnd) of (res, s', delivered, grouped_frames) \<Rightarrow>
      (res, ns_frames_buffer s', delivered,
       map (map (\<lambda>f. (nf_camera_id f, nf_frame_number f))) grouped_frames))
   = (Inr (), [], [], [[(''A'', 1), (''B'', 1)], [(''A'', 2), (''B'', 2)]])"
  by (simp add: E1_state_def ns_synchronize_def ns_collect_def ns_init_def dict_contains_def
      Let_def sequence_def drain_groups_def ns_mark_def FrameSequencingService_init_def)

lemma ns_partial_reachable: "ns_reachable exact ns_partial_state"
  unfolding ns_partial_state_def by (intro ns_reachable.intros)

lemma ns_remarked_reachable: "ns_reachable exact ns_remarked_state"
proof -
  have "ns_synchronize exact 2 ns_partial_state
          = (fst (ns_synchronize exact 2 ns_partial_state),
             fst (snd (ns_synchronize exact 2 ns_partial_state)),
             snd (snd (ns_synchronize exact 2 ns_partial_state)))"
    by simp
  with ns_partial_reachable
  have "ns_reachable exact (fst (snd (ns_synchronize exact 2 ns_partial_state)))"
    by (rule ns_reach_synchronize)
  then show ?thesis
    unfolding ns_remarked_state_def by (intro ns_reach_collect)
qed

lemmas ns_run_eval = ns_partial_state_def ns_remarked_state_def ns_synchronize_def
  ns_collect_def ns_init_def dict_contains_def Let_def sequence_def drain_groups_def
  ns_mark_def FrameSequencingService_init_def ns_view_def ns_view_marked_def
  ns_marked_buffer_def

text \<open>
  C10, as stated, fails in its last clause (the error is avoided only when every buffered
  record was grouped in that pass). With cameras A and B, frame 1 from both and frame 2 from
  A, a first \<open>synchronize\<close> marks A1 and B1 and raises \<open>TypeError\<close>, so that the marked
  frames stay in the buffer. Camera C then appears with frame 2, and frame 2 arrives from B.
  The next \<open>synchronize\<close> groups frame 2 only (frame 1 has two of three cameras), and
  returns normally: A1 and B1 pass the cleanup on the marks left by the earlier pass.
\<close>

theorem ns_synchronize_returns_on_earlier_marks:
  "fst (ns_synchronize exact 2 ns_partial_state) = Inl TypeError \<and>
   map ns_view_marked (ns_frames_buffer ns_remarked_state)
     = [(''A'', 1, True), (''B'', 1, True), (''A'', 2, False), (''C'', 2, False),
        (''B'', 2, False)] \<and>
   length (ns_initial_camera_data ns_remarked_state) = 3 \<and>
   fst (ns_synchronize exact 3 ns_remarked_state) = Inr () \<and>
   map (map ns_view) (snd (snd (snd (ns_synchronize exact 3 ns_remarked_state))))
     = [[(''A'', 2), (''C'', 2), (''B'', 2)]]"
  by (simp add: ns_run_eval)

text \<open>
  C10, amended. \<open>collect\<close> stores no entry time on the frame it buffers, and no buffered
  frame of a reachable state has one. Hence, in every reachable state, \<open>synchronize\<close>
  raises \<open>TypeError\<close> exactly when the buffer holds a frame that does not carry the
  grouped mark when the cleanup runs, and returns normally exactly when every buffered
  frame carries the mark then (set in this pass, or left by an earlier pass whose cleanup
  raised); when it raises, nothing is evicted (the buffer is left as the grouping loop
  marked it).
\<close>

theorem ns_synchronize_raises_on_ungrouped:
  assumes "ns_reachable rnd s"
  shows "nf_entry_time (last (ns_frames_buffer (ns_collect rnd n t fps cam msg s))) = None \<and>
     (\<forall>f \<in> set (ns_frames_buffer s). nf_entry_time f = None) \<and>
     (fst (ns_synchronize rnd now s) = Inl TypeError)
        = (\<exists>f \<in> set (ns_marked_buffer s). \<not> nf_grouped f) \<and>
     (fst (ns_synchronize rnd now s) = Inr ())
        = (\<forall>f \<in> set (ns_marked_buffer s). nf_grouped f) \<and>
     ((\<exists>f \<in> set (ns_marked_buffer s). \<not> nf_grouped f) \<longrightarrow>
        ns_frames_buffer (fst (snd (ns_synchronize rnd now s))) = ns_marked_buffer s)"
proof -
  obtain gf buf where gl:
    "ns_group_loop (length (ns_initial_camera_data s))
       (sort (remdups (map nf_frame_number (ns_frames_buffer s))))
       ([], ns_frames_buffer s) = (gf, buf)"
    by (cases "ns_group_loop (length (ns_initial_camera_data s))
            (sort (remdups (map nf_frame_number (ns_frames_buffer s))))
            ([], ns_frames_buffer s)")
  have inv: "\<forall>f \<in> set (ns_frames_buffer s). nf_entry_time f = None"
    using ns_reachable_inv [OF assms] by simp
  have mb: "ns_marked_buffer s = buf"
    by (simp add: ns_marked_buffer_def gl)
  have b: "\<forall>f \<in> set buf. nf_entry_time f = None"
    using ns_group_loop_entry [OF gl] inv by simp
  have cl: "ns_cleanup rnd now (ns_retention_time s) buf
              = (if \<forall>f \<in> set buf. nf_grouped f then Inr [] else Inl TypeError)"
    using b by (rule ns_cleanup_None)
  have c1: "nf_entry_time (last (ns_frames_buffer (ns_collect rnd n t fps cam msg s))) = None"
    by (simp add: ns_collect_def Let_def)
  have r: "fst (ns_synchronize rnd now s)
             = (if \<forall>f \<in> set buf. nf_grouped f then Inr () else Inl TypeError)"
    by (simp add: ns_synchronize_def Let_def gl cl split: prod.splits)
  have k: "\<not> (\<forall>f \<in> set buf. nf_grouped f) \<Longrightarrow>
      ns_frames_buffer (fst (snd (ns_synchronize rnd now s))) = buf"
    by (auto simp: ns_synchronize_def Let_def gl cl split: prod.splits)
  from c1 inv r k show ?thesis
    unfolding mb by auto
qed

text \<open>
  An instance: frame 1 from both cameras and frame 2 from camera A only. The two frames
  numbered 1 are grouped, frame 2 is not, and \<open>synchronize\<close> raises \<open>TypeError\<close>, leaving
  all three frames in the buffer.
\<close>

theorem ns_synchronize_raises_on_ungrouped_witness:
  "ns_reachable exact ns_partial_state \<and>
   map (\<lambda>f. (nf_camera_id f, nf_frame_number f, nf_grouped f, nf_entry_time f))
       (ns_marked_buffer ns_partial_state)
     = [(''A'', 1, True, None), (''B'', 1, True, None), (''A'', 2, False, None)] \<and>
   fst (ns_synchronize exact 2 ns_partial_state) = Inl TypeError \<and>
   ns_frames_buffer (fst (snd (ns_synchronize exact 2 ns_partial_state)))
     = ns_marked_buffer ns_partial_state"
proof -
  have r: "ns_reachable exact ns_partial_state"
    by (rule ns_partial_reachable)
  have m: "map (\<lambda>f. (nf_camera_id f, nf_frame_number f, nf_grouped f, nf_entry_time f))
       (ns_marked_buffer ns_partial_state)
     = [(''A'', 1, True, None), (''B'', 1, True, None), (''A'', 2, False, None)]"
    by (simp add: ns_marked_buffer_def ns_partial_state_def ns_collect_def ns_init_def
        dict_contains_def Let_def ns_mark_def)
  then have e: "\<exists>f \<in> set (ns_marked_buffer ns_partial_state). \<not> nf_grouped f"
    by (auto simp: map_eq_Cons_conv)
  show ?thesis
    using ns_synchronize_raises_on_ungrouped [OF r, of 0 0 0 "''A''" None 2] r m e
    by simp
qed

section \<open>Results on the FrameSyncTimestampService\<close>

lemmas ts_eval = ts_collect_def ts_init_def dict_contains_def Let_def
  FrameSequencingService_init_def ts_synchronize_def truthy_grouped_def ts_mark_def
  collect_group_def sequence_def drain_groups_def three_cam_input_def interleaved_input_def
  three_cam_state_def interleaved_state_def ts_view_def exact_def

















text \<open>
  C2 (within one \<open>synchronize\<close> pass the grouping keys of the groups handed to the
  callback are non-decreasing, whatever the order of completion). Both synchronizers call
  \<open>frame_seq.sequence()\<close>, which sorts the per-frame buffer of the sequencer and leaves
  \<open>grouped_frames_buffer\<close> as it is, and then drain the groups in completion order. On
  the interleaved input, the anchor A at 1.0 finds no camera C frame in tolerance; the
  group anchored at A at 2.0 completes first, and the group anchored at B at 1.125 (with A
  at 1.0 and C at 1.375) second: the keys handed to the callback are 2.0 and then 1.0.
\<close>

theorem ts_synchronize_delivers_out_of_order:
  "ts_collect_all exact interleaved_input (ts_init 0 0 60 60 0) = Inr interleaved_state \<and>
   map (map ts_view) (snd (ts_synchronize exact 11 interleaved_state))
     = [[(''A'', 2), (''B'', 2), (''C'', 2)], [(''B'', 9/8), (''A'', 1), (''C'', 11/8)]] \<and>
   map group_key (snd (ts_synchronize exact 11 interleaved_state)) = [2, 1]"
  by (simp add: ts_eval upt_rec group_key_def)

section \<open>Results on the consumer loop\<close>

lemmas loop_eval = step_def loop_body_def collect_step_def init_synchronization_def
  init_sequencing_def processing_branch_def sequencing_branch_def sync_block_def
  process_cv_module_def process_frame_synchronization_def single_camera_synchronization_def
  check_key_condition_def truthy_str_def consumer_seek_to_end_def commit_def emit_def
  start_state_def number_sync_consumer_def quiet_env_def bus_msg_def Let_def SKIP_def WAIT_def
  after_M1_def plain_consumer_def failing_env_def

lemmas branch_defs = processing_branch_def sequencing_branch_def sync_block_def
  process_cv_module_def process_frame_synchronization_def single_camera_synchronization_def
  consumer_seek_to_end_def commit_def emit_def Let_def

lemma sync_block_discipline: "sync_block cfg e st = (out, st') \<Longrightarrow> discipline st out st'"
  by (auto simp: sync_block_def discipline_def no_commit_def process_frame_synchronization_def
      single_camera_synchronization_def consumer_seek_to_end_def commit_def emit_def Let_def
      split: option.splits if_splits sum.splits prod.splits)

lemma discipline_prefix:
  assumes "discipline st1 out st'" and "trace st1 = trace st @ pre" and "no_commit pre"
    and "committed st1 = committed st" and "skip_count st1 = skip_count st"
    and "position st1 = position st" and "out = Continue \<longrightarrow> pre = []"
  shows "discipline st out st'"
proof -
  have app: "\<And>evs. no_commit evs \<Longrightarrow> no_commit (pre @ evs)"
    using assms(3) by (auto simp: no_commit_def)
  show ?thesis
    unfolding discipline_def
  proof (intro conjI impI allI)
    assume "out = Completed"
    with assms(1) obtain evs where
      "committed st' = position st'" "position st' = position st1"
      "trace st' = trace st1 @ evs @ [Commit (position st')]" "no_commit evs"
      by (auto simp: discipline_def)
    then show "committed st' = position st'" "position st' = position st"
      "\<exists>evs. trace st' = trace st @ evs @ [Commit (position st')] \<and> no_commit evs"
      using assms(2,6) app [of evs] by auto
  next
    assume "out = Break"
    with assms(1) obtain evs n where
      "committed st' = position st1" "position st1 \<le> position st'"
      "trace st' = trace st1 @ evs @ [Commit (position st1), SeekToEnd n]" "no_commit evs"
      by (auto simp: discipline_def)
    then show "committed st' = position st" "position st \<le> position st'"
      "\<exists>evs n. trace st' = trace st @ evs @ [Commit (position st), SeekToEnd n]
          \<and> no_commit evs"
      using assms(2,6) app [of evs] by auto
  next
    assume "out = Continue"
    with assms show "committed st' = committed st" "trace st' = trace st"
      "position st' = position st"
      by (auto simp: discipline_def)
  next
    fix err assume "out = Raised err"
    with assms(1) obtain evs where
      "committed st' = committed st1" "skip_count st' = skip_count st1"
      "position st' = position st1" "trace st' = trace st1 @ evs" "no_commit evs"
      by (auto simp: discipline_def)
    then show "committed st' = committed st" "skip_count st' = skip_count st"
      "position st' = position st" "\<exists>evs. trace st' = trace st @ evs \<and> no_commit evs"
      using assms(2,4,5,6) app [of evs] by auto
  qed
qed

lemma commit_discipline: "discipline st Completed (commit st)"
  by (auto simp: discipline_def commit_def emit_def no_commit_def)

lemma sequencing_branch_discipline:
  "sequencing_branch cfg m e st = (out, st') \<Longrightarrow> discipline st out st' \<and> out \<noteq> Continue"
  by (auto simp: sequencing_branch_def discipline_def no_commit_def commit_def emit_def Let_def
      split: option.splits if_splits)

lemma processing_branch_discipline:
  assumes "processing_branch cfg m e st = (out, st')"
  shows "discipline st out st' \<and> (out = Continue) = (0 < skip_count st) \<and>
         (0 < skip_count st \<longrightarrow> skip_count st' = skip_count st - 1)"
proof (cases "0 < skip_count st")
  case True
  with assms show ?thesis
    by (auto simp: processing_branch_def discipline_def)
next
  case False
  show ?thesis
  proof (cases "case cfg of None \<Rightarrow> True | Some c \<Rightarrow> \<not> cfg_unify c")
    case nounify: True
    show ?thesis
    proof (cases "callback_raises e")
      case (Some err)
      with assms False nounify have "out = Raised err" "st' = emit (Callback m) st"
        by (auto simp: processing_branch_def process_cv_module_def)
      then show ?thesis
        using False by (auto simp: discipline_def emit_def no_commit_def)
    next
      case None
      let ?st1 = "emit (Callback m) (st\<lparr>actual_message_count := Suc (actual_message_count st)\<rparr>)"
      have st1: "trace ?st1 = trace st @ [Callback m]" "no_commit [Callback m]"
        "committed ?st1 = committed st" "skip_count ?st1 = skip_count st"
        "position ?st1 = position st"
        by (simp_all add: emit_def no_commit_def)
      from assms False nounify None have
        r: "(out, st') = (if frame_synchronization ?st1 then sync_block cfg e ?st1
                          else (Completed, commit ?st1))"
        by (simp add: processing_branch_def process_cv_module_def)
      have d1: "discipline ?st1 out st'"
      proof (cases "frame_synchronization ?st1")
        case True
        with r have "sync_block cfg e ?st1 = (out, st')" by simp
        then show ?thesis by (rule sync_block_discipline)
      next
        case False
        with r have "out = Completed" "st' = commit ?st1" by simp_all
        then show ?thesis using commit_discipline [of ?st1] by simp
      qed
      have nc: "out \<noteq> Continue"
      proof (cases "frame_synchronization ?st1")
        case True
        with r have "sync_block cfg e ?st1 = (out, st')" by simp
        then show ?thesis
          by (auto simp: sync_block_def Let_def single_camera_synchronization_def
              split: option.splits if_splits sum.splits prod.splits)
      next
        case False
        with r show ?thesis by simp
      qed
      have "discipline st out st'"
        using discipline_prefix [OF d1 st1] nc by simp
      with nc False show ?thesis by simp
    qed
  next
    case unify: False
    from assms False unify have
      r: "(out, st') = (if frame_synchronization st then sync_block cfg e st
                        else (Completed, commit st))"
      by (simp add: processing_branch_def)
    have d1: "discipline st out st'"
    proof (cases "frame_synchronization st")
      case True
      with r have "sync_block cfg e st = (out, st')" by simp
      then show ?thesis by (rule sync_block_discipline)
    next
      case False
      with r have "out = Completed" "st' = commit st" by simp_all
      then show ?thesis using commit_discipline [of st] by simp
    qed
    have nc: "out \<noteq> Continue"
    proof (cases "frame_synchronization st")
      case True
      with r have "sync_block cfg e st = (out, st')" by simp
      then show ?thesis
        by (auto simp: sync_block_def Let_def single_camera_synchronization_def
            split: option.splits if_splits sum.splits prod.splits)
    next
      case False
      with r show ?thesis by simp
    qed
    from d1 nc False show ?thesis by simp
  qed
qed

lemma step_discipline:
  assumes "step mc e r st = (out, st')"
  shows "(br_value r = None \<and> out = Raised ValueError \<and> st' = st) \<or>
         (br_value r \<noteq> None \<and> discipline (st\<lparr>position := Suc (position st)\<rparr>) out st' \<and>
          (skip_decision mc r st \<longrightarrow> out = Continue \<and> skip_count st' = skip_count st - 1))"
proof (cases "br_value r")
  case None
  with assms show ?thesis by (simp add: step_def)
next
  case (Some m)
  let ?sa = "st\<lparr>position := Suc (position st)\<rparr>"
  let ?cfg = "mc_frame_sync_config mc"
  show ?thesis
  proof (cases "check_key_condition (mc_key mc) r")
    case (Inl err)
    with Some assms have "out = Raised err" "st' = ?sa" by (simp_all add: step_def)
    then show ?thesis
      using Some Inl by (auto simp: discipline_def no_commit_def skip_decision_def)
  next
    case (Inr filtered)
    show ?thesis
    proof (cases filtered)
      case True
      with Some Inr assms have "out = Continue" "st' = ?sa" by (simp_all add: step_def)
      then show ?thesis
        using Some Inr True by (auto simp: discipline_def skip_decision_def)
    next
      case False
      with Some Inr assms have lb: "loop_body ?cfg m e ?sa = (out, st')"
        by (simp add: step_def)
      let ?s1 = "init_synchronization ?cfg ?sa"
      obtain res s2 where cs: "collect_step m e ?s1 = (res, s2)"
        by (cases "collect_step m e ?s1")
      show ?thesis
      proof (cases res)
        case (Some err)
        with cs lb have o: "out = Raised err" "st' = s2" by (simp_all add: loop_body_def)
        from cs Some have "s2 = ?s1" "skip_count st = 0"
          by (auto simp: collect_step_def init_synchronization_def
              split: if_splits option.splits)
        with o \<open>br_value r = Some m\<close> show ?thesis
          by (auto simp: discipline_def no_commit_def skip_decision_def
              init_synchronization_def)
      next
        case None
        define s3 where "s3 = init_sequencing ?cfg s2"
        obtain pre where s2: "trace s2 = trace ?sa @ pre" "no_commit pre"
          "committed s2 = committed ?sa" "skip_count s2 = skip_count ?sa"
          "position s2 = position ?sa" "frame_sequencing s2 = frame_sequencing st"
          "0 < skip_count st \<longrightarrow> pre = []"
        proof (cases "frame_synchronization ?s1 \<and> skip_count ?s1 = 0")
          case True
          with cs None have "s2 = emit (Collect m) ?s1"
            by (auto simp: collect_step_def split: option.splits)
          with True show ?thesis
            by (intro that [of "[Collect m]"])
               (simp_all add: emit_def init_synchronization_def no_commit_def)
        next
          case False
          with cs have "s2 = ?s1" by (auto simp: collect_step_def)
          then show ?thesis
            by (intro that [of "[]"]) (simp_all add: init_synchronization_def no_commit_def)
        qed
        have seq: "frame_sequencing s3 = sequencing_on mc st"
          by (simp add: s3_def init_sequencing_def sequencing_on_def s2(6))
        have s3: "trace s3 = trace ?sa @ pre" "no_commit pre" "committed s3 = committed ?sa"
          "skip_count s3 = skip_count ?sa" "position s3 = position ?sa"
          using s2 by (simp_all add: s3_def init_sequencing_def)
        have r: "(out, st') = (if frame_sequencing s3 then sequencing_branch ?cfg m e s3
                               else processing_branch ?cfg m e s3)"
          using lb cs None by (auto simp: loop_body_def Let_def s3_def)
        show ?thesis
        proof (cases "frame_sequencing s3")
          case True
          with r have "sequencing_branch ?cfg m e s3 = (out, st')" by simp
          from sequencing_branch_discipline [OF this]
          have d: "discipline s3 out st'" and nc: "out \<noteq> Continue" by simp_all
          have "discipline ?sa out st'"
            using discipline_prefix [OF d s3] nc by simp
          moreover have "\<not> skip_decision mc r st"
            using True seq by (simp add: skip_decision_def)
          ultimately show ?thesis using \<open>br_value r = Some m\<close> by simp
        next
          case noseq: False
          with r have "processing_branch ?cfg m e s3 = (out, st')" by simp
          from processing_branch_discipline [OF this]
          have d: "discipline s3 out st'" and c: "(out = Continue) = (0 < skip_count s3)"
            and k: "0 < skip_count s3 \<longrightarrow> skip_count st' = skip_count s3 - 1"
            by simp_all
          have "out = Continue \<longrightarrow> pre = []"
            using c s3(4) s2(7) by simp
          with discipline_prefix [OF d s3] have "discipline ?sa out st'" by simp
          moreover have "skip_decision mc r st \<longrightarrow> out = Continue \<and>
              skip_count st' = skip_count st - 1"
            using c k s3(4) by (auto simp: skip_decision_def)
          ultimately show ?thesis using \<open>br_value r = Some m\<close> by simp
        qed
      qed
    qed
  qed
qed


text \<open>
  C8, amended. A message whose value does not decode, or whose callback raises when the
  loop calls it synchronously (no sequencer, not in unify mode), makes the iteration
  raise; and when an iteration raises, \<open>start\<close> calls \<open>logger.error\<close>, re-raises the
  exception and closes the consumer: no later message is consumed, the skip counter is as
  it was before the message, and the offset of the failing message is NOT committed (the
  committed offset is what it was before the message). With a sequencer, or in unify mode,
  the callback runs in a worker thread: whether it raises makes no difference to the
  iteration, and with a sequencer an iteration in which the loop body itself raises
  nothing runs to its end and commits the offset of the message.
\<close>

theorem step_raise_ends_run:
  "(br_value r = None \<longrightarrow> fst (step mc e r st) = Raised ValueError) \<and>
   (reaches_callback mc e r st \<and> callback_raises e = Some err' \<longrightarrow>
      fst (step mc e r st) = Raised err') \<and>
   (step mc e r st = (Raised err, st') \<longrightarrow>
      run mc ((r, e) # rest) st = (Some err, emit Close (emit (LogError err) st')) \<and>
      committed st' = committed st \<and> skip_count st' = skip_count st \<and>
      position st' \<le> Suc (position st) \<and>
      (\<exists>evs. trace st' = trace st @ evs \<and> no_commit evs)) \<and>
   (sequencing_on mc st \<or> unify_mode mc \<longrightarrow>
      step mc (e\<lparr>callback_raises := x\<rparr>) r st = step mc e r st) \<and>
   (sequenced_quietly mc e r st \<longrightarrow>
      fst (step mc e r st) = Completed \<and>
      committed (snd (step mc e r st)) = Suc (position st) \<and>
      position (snd (step mc e r st)) = Suc (position st))"
proof (intro conjI impI)
  assume "br_value r = None"
  then show "fst (step mc e r st) = Raised ValueError" by (simp add: step_def)
next
  assume "reaches_callback mc e r st \<and> callback_raises e = Some err'"
  then show "fst (step mc e r st) = Raised err'"
    by (auto simp: reaches_callback_def sequencing_on_def step_def Let_def loop_body_def
        collect_step_def init_synchronization_def init_sequencing_def processing_branch_def
        process_cv_module_def emit_def split: option.splits)
next
  assume a: "step mc e r st = (Raised err, st')"
  then show "run mc ((r, e) # rest) st = (Some err, emit Close (emit (LogError err) st'))"
    by simp
  from step_discipline [OF a]
  have "committed st' = committed st \<and> skip_count st' = skip_count st \<and>
      position st' \<le> Suc (position st) \<and>
      (\<exists>evs. trace st' = trace st @ evs \<and> no_commit evs)"
    by (auto simp: discipline_def no_commit_def)
  then show "committed st' = committed st" "skip_count st' = skip_count st"
    "position st' \<le> Suc (position st)" "\<exists>evs. trace st' = trace st @ evs \<and> no_commit evs"
    by simp_all
next
  assume w: "sequencing_on mc st \<or> unify_mode mc"
  have lb: "loop_body (mc_frame_sync_config mc) m (e\<lparr>callback_raises := x\<rparr>) s0
              = loop_body (mc_frame_sync_config mc) m e s0"
    if "frame_sequencing s0 = frame_sequencing st" for m s0
  proof -
    have i: "frame_sequencing (init_sequencing (mc_frame_sync_config mc) s2)
               \<or> unify_mode mc"
      if "frame_sequencing s2 = frame_sequencing st" for s2
      using w that by (auto simp: init_sequencing_def sequencing_on_def)
    have c: "collect_step m (e\<lparr>callback_raises := x\<rparr>) s1 = collect_step m e s1" for s1
      by (simp add: collect_step_def)
    have f: "frame_sequencing (snd (collect_step m e s1)) = frame_sequencing s1" for s1
      by (simp add: collect_step_def emit_def split: option.splits)
    have p: "processing_branch (mc_frame_sync_config mc) m (e\<lparr>callback_raises := x\<rparr>) s3
               = processing_branch (mc_frame_sync_config mc) m e s3"
      if "unify_mode mc" for s3
      using that
      by (auto simp: processing_branch_def unify_mode_def sync_block_def
          process_frame_synchronization_def single_camera_synchronization_def
          consumer_seek_to_end_def Let_def split: option.splits)
    have q: "sequencing_branch (mc_frame_sync_config mc) m (e\<lparr>callback_raises := x\<rparr>) s3
               = sequencing_branch (mc_frame_sync_config mc) m e s3" for s3
      by (simp add: sequencing_branch_def Let_def split: option.splits)
    obtain res s2 where cs:
      "collect_step m e (init_synchronization (mc_frame_sync_config mc) s0) = (res, s2)"
      by (cases "collect_step m e (init_synchronization (mc_frame_sync_config mc) s0)")
    have "frame_sequencing s2 = frame_sequencing st"
      using f [of "init_synchronization (mc_frame_sync_config mc) s0"] cs that
      by (simp add: init_synchronization_def)
    from i [OF this] show ?thesis
      unfolding loop_body_def c cs
      by (cases res) (auto simp: Let_def p q)
  qed
  show "step mc (e\<lparr>callback_raises := x\<rparr>) r st = step mc e r st"
    unfolding step_def
    by (auto simp: Let_def lb split: option.splits sum.splits bool.splits)
next
  assume "sequenced_quietly mc e r st"
  then have "fst (step mc e r st) = Completed \<and>
      committed (snd (step mc e r st)) = Suc (position st) \<and>
      position (snd (step mc e r st)) = Suc (position st)"
    by (auto simp: sequenced_quietly_def sequencing_on_def step_def loop_body_def
        collect_step_def init_synchronization_def init_sequencing_def sequencing_branch_def
        commit_def emit_def Let_def split: option.splits)
  then show "fst (step mc e r st) = Completed"
    "committed (snd (step mc e r st)) = Suc (position st)"
    "position (snd (step mc e r st)) = Suc (position st)"
    by simp_all
qed

text \<open>Over a whole run the committed offset never passes the position.\<close>

lemma run_committed_le_position:
  "run mc rs st = (res, st') \<Longrightarrow> committed st \<le> position st \<Longrightarrow> committed st' \<le> position st'"
proof (induction mc rs st rule: run.induct)
  case (1 mc st)
  then show ?case by simp
next
  case (2 mc r e rest st)
  obtain out s1 where s: "step mc e r st = (out, s1)" by (cases "step mc e r st")
  from step_discipline [OF s] "2.prems"(2) have le: "committed s1 \<le> position s1"
    by (cases out) (auto simp: discipline_def)
  show ?case
  proof (cases out)
    case Continue
    with s "2.IH" "2.prems"(1) le show ?thesis by auto
  next
    case Completed
    with s "2.IH" "2.prems"(1) le show ?thesis by auto
  next
    case Break
    with s "2.IH" "2.prems"(1) le show ?thesis by auto
  next
    case (Raised err)
    with s "2.prems"(1) le show ?thesis by (auto simp: emit_def)
  qed
qed



text \<open>
  C8, as stated (after a per-message failure the offset is committed and the loop goes on
  with the next message), fails: when the callback raises on the first of two messages,
  \<open>start\<close> logs the error, closes the consumer and re-raises; nothing is committed and
  the second message is never consumed.
\<close>

theorem run_callback_error_ends_loop:
  "run plain_consumer [(bus_msg ''M1'', failing_env), (bus_msg ''M2'', quiet_env)] start_state
   = (Some ValueError,
      \<lparr>frame_synchronization = False, frame_sequencing = False, actual_message_count = 0,
       skip_count = 0, seek_to_end = False, position = 1, committed = 0,
       trace = [Callback ''M1'', LogError ValueError, Close]\<rparr>)"
  by (simp add: loop_eval)

text \<open>
  An instance: the run above; a record whose value does not decode; and two messages
  to a consumer with sequencing whose callback would raise on both, which are both
  collected and committed.
\<close>

theorem step_raise_ends_run_witness:
  "reaches_callback plain_consumer failing_env (bus_msg ''M1'') start_state \<and>
   callback_raises failing_env = Some ValueError \<and>
   fst (step plain_consumer failing_env (bus_msg ''M1'') start_state) = Raised ValueError \<and>
   run plain_consumer [(bus_msg ''M1'', failing_env), (bus_msg ''M2'', quiet_env)] start_state
     = (Some ValueError,
        emit Close (emit (LogError ValueError)
          (snd (step plain_consumer failing_env (bus_msg ''M1'') start_state)))) \<and>
   committed (snd (step plain_consumer failing_env (bus_msg ''M1'') start_state)) = 0 \<and>
   fst (step plain_consumer quiet_env \<lparr>br_key = None, br_value = None\<rparr> start_state)
     = Raised ValueError \<and>
   sequenced_quietly sequencing_consumer failing_env (bus_msg ''M1'') start_state \<and>
   step sequencing_consumer failing_env (bus_msg ''M1'') start_state
     = step sequencing_consumer quiet_env (bus_msg ''M1'') start_state \<and>
   fst (step sequencing_consumer failing_env (bus_msg ''M1'') start_state) = Completed \<and>
   committed (snd (step sequencing_consumer failing_env (bus_msg ''M1'') start_state)) = 1 \<and>
   run sequencing_consumer [(bus_msg ''M1'', failing_env), (bus_msg ''M2'', failing_env)]
     start_state
     = (None, \<lparr>frame_synchronization = False, frame_sequencing = True,
         actual_message_count = 0, skip_count = 0, seek_to_end = False, position = 2,
         committed = 2,
         trace = [SeqCollect ''M1'', Commit 1, SeqCollect ''M2'', Commit 2]\<rparr>)"
proof -
  let ?s1 = "snd (step plain_consumer failing_env (bus_msg ''M1'') start_state)"
  have rc: "reaches_callback plain_consumer failing_env (bus_msg ''M1'') start_state"
    by (simp add: reaches_callback_def sequencing_on_def loop_eval)
  have cr: "callback_raises failing_env = Some ValueError"
    by (simp add: loop_eval)
  from step_raise_ends_run
         [of "bus_msg ''M1''" plain_consumer failing_env start_state ValueError] rc cr
  have f: "fst (step plain_consumer failing_env (bus_msg ''M1'') start_state) = Raised ValueError"
    by blast
  then have s: "step plain_consumer failing_env (bus_msg ''M1'') start_state
                  = (Raised ValueError, ?s1)"
    by (metis prod.collapse)
  from step_raise_ends_run
         [of "bus_msg ''M1''" plain_consumer failing_env start_state ValueError ValueError ?s1
             "[(bus_msg ''M2'', quiet_env)]"] s
  have r: "run plain_consumer [(bus_msg ''M1'', failing_env), (bus_msg ''M2'', quiet_env)]
             start_state
           = (Some ValueError, emit Close (emit (LogError ValueError) ?s1))"
    and c: "committed ?s1 = committed start_state"
    by blast+
  have d: "fst (step plain_consumer quiet_env \<lparr>br_key = None, br_value = None\<rparr> start_state)
     = Raised ValueError"
    using step_raise_ends_run
         [of "\<lparr>br_key = None, br_value = None\<rparr>" plain_consumer quiet_env start_state]
    by simp
  have sq: "sequenced_quietly sequencing_consumer failing_env (bus_msg ''M1'') start_state"
    by (simp add: sequenced_quietly_def sequencing_on_def sequencing_consumer_def loop_eval)
  have so: "sequencing_on sequencing_consumer start_state"
    by (simp add: sequencing_on_def sequencing_consumer_def)
  have fe: "failing_env = quiet_env\<lparr>callback_raises := Some ValueError\<rparr>"
    by (simp add: failing_env_def)
  from step_raise_ends_run
         [of "bus_msg ''M1''" sequencing_consumer quiet_env start_state _ _ _ _
             "Some ValueError"] so
  have ind: "step sequencing_consumer failing_env (bus_msg ''M1'') start_state
     = step sequencing_consumer quiet_env (bus_msg ''M1'') start_state"
    unfolding fe by blast
  from step_raise_ends_run
         [of "bus_msg ''M1''" sequencing_consumer failing_env start_state] sq
  have cm: "fst (step sequencing_consumer failing_env (bus_msg ''M1'') start_state) = Completed"
    "committed (snd (step sequencing_consumer failing_env (bus_msg ''M1'') start_state))
       = Suc (position start_state)"
    by blast+
  have ru: "run sequencing_consumer [(bus_msg ''M1'', failing_env), (bus_msg ''M2'', failing_env)]
     start_state
     = (None, \<lparr>frame_synchronization = False, frame_sequencing = True,
         actual_message_count = 0, skip_count = 0, seek_to_end = False, position = 2,
         committed = 2,
         trace = [SeqCollect ''M1'', Commit 1, SeqCollect ''M2'', Commit 2]\<rparr>)"
    by (simp add: loop_eval sequencing_consumer_def)
  from rc cr f r c d sq ind cm ru show ?thesis by (simp add: start_state_def)
qed

end
